theory Spec2Isabelle
  imports
    Complex_Main
    "HOL-Library.Char_ord"
    "HOL-Library.List_Lexorder"
    "HOL-Library.Sublist"
    "HOL-Library.Multiset"
begin

chapter \<open>vsc-administration: VO provisioning and sacct parsing\<close>

text \<open>
  A shallow embedding of \<^verbatim>\<open>lib/vsc/administration/vo.py\<close>,
  \<^verbatim>\<open>lib/vsc/administration/project.py\<close>,
  \<^verbatim>\<open>lib/vsc/administration/slurm/sacct.py\<close> and of
  \<^verbatim>\<open>execute_commands\<close> in \<^verbatim>\<open>bin/sync_slurm_acct.py\<close>.

  Every Python exception is a value of \<open>error\<close>; a function that may raise returns
  \<open>error + 'a\<close>. The storage backends and the account page are collaborators outside
  the repository: the account page is a read-only snapshot (functions of the key), a
  backend is an oracle that answers a call given the calls issued so far, and every call
  that reaches a backend or writes to the account page is appended to a trace.
\<close>

section \<open>Exceptions\<close>

datatype error =
    HTTPError
  | IndexError
  | KeyError
  | AttributeError
  | TypeError
  | RuntimeError
  | UnboundLocalError
  | BackendError
  | PlainException
  | UserStatusUpdateError
  | SacctParseException
  | SacctMgrException

section \<open>Python strings and paths\<close>

text \<open>\<^verbatim>\<open>str.replace(old, new)\<close>: every non-overlapping occurrence, left to right; an
  empty \<open>old\<close> matches between all characters.\<close>

function str_replace :: "string \<Rightarrow> string \<Rightarrow> string \<Rightarrow> string" where
  "str_replace old new s =
     (if old = [] then new @ concat (map (\<lambda>c. c # new) s)
      else if s = [] then []
      else if prefix old s then new @ str_replace old new (drop (length old) s)
      else hd s # str_replace old new (tl s))"
  by pat_completeness auto
termination
  by (relation "measure (\<lambda>(old, new, s). length s)") auto

declare str_replace.simps [simp del]

text \<open>\<^verbatim>\<open>str.split(sep)\<close> for a one-character separator: never the empty list.\<close>

fun split_on :: "char \<Rightarrow> string \<Rightarrow> string list" where
  "split_on d [] = [[]]"
| "split_on d (c # cs) =
     (if c = d then [] # split_on d cs
      else (case split_on d cs of
              [] \<Rightarrow> [[c]]
            | w # ws \<Rightarrow> (c # w) # ws))"

text \<open>\<^verbatim>\<open>str.isspace\<close> on one ASCII character, and \<^verbatim>\<open>str.rstrip()\<close>.\<close>

definition is_space :: "char \<Rightarrow> bool" where
  "is_space c =
     (let n = (of_char c :: nat) in (9 \<le> n \<and> n \<le> 13) \<or> (28 \<le> n \<and> n \<le> 32))"

definition rstrip :: "string \<Rightarrow> string" where
  "rstrip s = rev (dropWhile is_space (rev s))"

text \<open>\<^verbatim>\<open>os.path.join(a, b)\<close> and \<^verbatim>\<open>os.path.dirname(p)\<close> of \<^verbatim>\<open>posixpath\<close>.\<close>

definition path_join :: "string \<Rightarrow> string \<Rightarrow> string" where
  "path_join a b =
     (if prefix ''/'' b then b
      else if a = [] \<or> suffix ''/'' a then a @ b
      else a @ ''/'' @ b)"

definition dirname :: "string \<Rightarrow> string" where
  "dirname p =
     (let head = rev (dropWhile (\<lambda>c. c \<noteq> CHR ''/'') (rev p))
      in if head \<noteq> [] \<and> \<not> list_all (\<lambda>c. c = CHR ''/'') head
         then rev (dropWhile (\<lambda>c. c = CHR ''/'') (rev head))
         else head)"

section \<open>sacct.py: parsing the accounting dump\<close>

text \<open>The selector \<^verbatim>\<open>info_type\<close> is compared with \<^verbatim>\<open>SacctTypes.jobs\<close>; any other
  Python object (the test passes the string \<^verbatim>\<open>"doesnotexist"\<close>) is \<open>OtherSelector\<close>.\<close>

datatype info_type = SacctTypes_jobs | OtherSelector string

text \<open>\<^verbatim>\<open>SlurmJobs = namedtuple_with_defaults('SlurmJobs', SacctJobsFields)\<close>: seven fields,
  each defaulting to \<^verbatim>\<open>None\<close>.\<close>

record SlurmJobs =
  JobID :: "string option"
  JobName :: "string option"
  Partition :: "string option"
  Account :: "string option"
  AllocCPUS :: "string option"
  State :: "string option"
  ExitCode :: "string option"

text \<open>\<^verbatim>\<open>dict(zip(header, fields))\<close> as an association list; a later pair overrides an
  earlier one with the same key, so lookup reads the reversed list.\<close>

definition dict_get :: "(string \<times> string) list \<Rightarrow> string \<Rightarrow> string option" where
  "dict_get d k = map_of (rev d) k"

text \<open>\<^verbatim>\<open>mkSlurmJobs(fields)\<close> is \<^verbatim>\<open>mkNamedTupleInstance(fields, SlurmJobs)\<close> of the account
  page client library: the items whose key is a field name fill that field, other items
  are dropped, and a field without an item keeps its default.\<close>

definition mkSlurmJobs :: "(string \<times> string) list \<Rightarrow> SlurmJobs" where
  "mkSlurmJobs d =
     \<lparr> JobID = dict_get d ''JobID'',
       JobName = dict_get d ''JobName'',
       Partition = dict_get d ''Partition'',
       Account = dict_get d ''Account'',
       AllocCPUS = dict_get d ''AllocCPUS'',
       State = dict_get d ''State'',
       ExitCode = dict_get d ''ExitCode'' \<rparr>"

text \<open>Truth value of a \<^verbatim>\<open>SlurmJobs\<close> instance in \<^verbatim>\<open>if info:\<close>. A tuple is false only
  when it is empty, and the named tuple always has its seven fields.\<close>

definition truthy_SlurmJobs :: "SlurmJobs \<Rightarrow> bool" where
  "truthy_SlurmJobs info = True"

definition parse_slurm_sacct_line ::
    "string list \<Rightarrow> string \<Rightarrow> info_type \<Rightarrow> error + SlurmJobs" where
  "parse_slurm_sacct_line header line info_type =
     (let fields = split_on CHR ''|'' line
      in if info_type = SacctTypes_jobs
         then Inr (mkSlurmJobs (zip header fields))
         else Inl SacctParseException)"

text \<open>The loop \<^verbatim>\<open>for line in lines[1:]\<close> with the set \<^verbatim>\<open>acct_info\<close> as accumulator; the
  \<^verbatim>\<open>except Exception\<close> clause logs and re-raises.\<close>

fun sacct_dump_loop ::
    "string list \<Rightarrow> info_type \<Rightarrow> string list \<Rightarrow> SlurmJobs set \<Rightarrow> error + SlurmJobs set" where
  "sacct_dump_loop header info_type [] acct_info = Inr acct_info"
| "sacct_dump_loop header info_type (line # rest) acct_info =
     (case parse_slurm_sacct_line header (rstrip line) info_type of
        Inl err \<Rightarrow> Inl err
      | Inr info \<Rightarrow>
          sacct_dump_loop header info_type rest
            (if truthy_SlurmJobs info then insert info acct_info else acct_info))"

definition sacct_header :: "string \<Rightarrow> string list" where
  "sacct_header line0 =
     map (\<lambda>w. str_replace ''%'' ''PCT_'' (str_replace '' '' ''_'' w))
       (split_on CHR ''|'' (rstrip line0))"

definition parse_slurm_sacct_dump :: "string list \<Rightarrow> info_type \<Rightarrow> error + SlurmJobs set" where
  "parse_slurm_sacct_dump lines info_type =
     (case lines of
        [] \<Rightarrow> Inl IndexError
      | line0 # rest \<Rightarrow> sacct_dump_loop (sacct_header line0) info_type rest {})"

section \<open>sync_slurm_acct.py: running the command batch\<close>

text \<open>A command is its argument list. \<^verbatim>\<open>RunQA.run\<close> is the external runner: its exit code
  is a function of the commands already run and of the command.\<close>

type_synonym command = "string list"

fun execute_commands ::
    "(command list \<Rightarrow> command \<Rightarrow> int) \<Rightarrow> command list \<Rightarrow> command list
      \<Rightarrow> (error + unit) \<times> command list" where
  "execute_commands run [] executed = (Inr (), executed)"
| "execute_commands run (command # rest) executed =
     (let ec = run executed command
      in if ec \<noteq> 0 then (Inl SacctMgrException, executed @ [command])
         else execute_commands run rest (executed @ [command]))"


section \<open>vo.py: collaborators and data\<close>

text \<open>The status constants \<^verbatim>\<open>NEW\<close>, \<^verbatim>\<open>MODIFIED\<close>, \<^verbatim>\<open>MODIFY\<close>, \<^verbatim>\<open>ACTIVE\<close> of
  \<^verbatim>\<open>vsc.config.base\<close>; every other status string is \<open>OtherStatus\<close>.\<close>

datatype vo_status = NEW | MODIFIED | MODIFY | ACTIVE | OtherStatus string

text \<open>The calls that leave the process: the methods of a storage backend
  (\<^verbatim>\<open>GpfsOperations\<close>, \<^verbatim>\<open>OceanStorOperations\<close>, \<^verbatim>\<open>PosixOperations\<close>) with their arguments
  in the order of the source, and the one write to the account page. The modes
  \<^verbatim>\<open>0o770\<close> and \<^verbatim>\<open>0o700\<close> are 504 and 448.\<close>

datatype call =
    ListFilesets
  | GetFilesetInfo string string
  | MakeDir string
  | MakeFileset string string "string option"
  | Chmod nat string
  | Chown int int string
  | SetFilesetQuota int string string "int option"
  | SetFilesetGrace string int
  | SetUserQuota int int string int
  | CreateStatDirectory string nat int int bool
  | PatchVoStatus string vo_status

text \<open>One entry of \<^verbatim>\<open>VscStorage()[institute][name]\<close>. \<open>filesystem\<close> is \<open>None\<close> when the
  attribute is missing; \<open>version\<close> is the version tuple, compared lexicographically.\<close>

record storage =
  backend :: string
  filesystem :: "string option"
  version :: "nat list"
  data_replication_factor :: int
  login_mount_point :: string
  backend_mount_point :: string

text \<open>A quota record of the account page (\<^verbatim>\<open>mkVscVoSizeQuota\<close> and the member's quota):
  \<^verbatim>\<open>q.storage['name']\<close>, \<^verbatim>\<open>q.storage['storage_type']\<close>, \<^verbatim>\<open>q.storage['institute']\<close>,
  \<^verbatim>\<open>q.fileset\<close>, \<^verbatim>\<open>q.hard\<close> (KiB).\<close>

record quota =
  quota_storage_name :: string
  quota_storage_type :: string
  quota_institute :: string
  quota_fileset :: string
  quota_hard :: int

text \<open>\<^verbatim>\<open>mkVo\<close>, \<^verbatim>\<open>mkVscAccount\<close> and \<^verbatim>\<open>mkVscAutogroup\<close> records, with the fields vo.py reads.\<close>

record vo_info =
  vsc_id :: string
  vsc_id_number :: int
  status :: vo_status
  members :: "string list"
  moderators :: "string list"
  institute_name :: string

record account_info =
  account_vsc_id :: string
  account_vsc_id_number :: int

record autogroup_info =
  group_vsc_id :: string
  group_vsc_id_number :: int

text \<open>A \<^verbatim>\<open>VscTier2AccountpageUser\<close>. The class lives in user.py, outside the sources at
  hand; a member is the data vo.py reads from it: \<^verbatim>\<open>user_id\<close>, \<^verbatim>\<open>account\<close>,
  \<^verbatim>\<open>usergroup.vsc_id_number\<close>, \<^verbatim>\<open>vo_data_quota\<close> and \<^verbatim>\<open>vo_scratch_quota\<close>.\<close>

record member =
  user_id :: string
  member_account :: account_info
  usergroup_vsc_id_number :: int
  member_vo_data_quota :: "quota list"
  member_vo_scratch_quota :: "quota list"

text \<open>The account page as a snapshot: each GET is a function of its key and returns the
  body or raises. Under a snapshot the lazily filled caches of the VO object
  (\<^verbatim>\<open>_vo_cache\<close>, \<^verbatim>\<open>_institute_quota_cache\<close>, ...) return what a fresh GET returns, so the
  properties are modelled without them. \<open>patch_vo_status\<close> is the status in the body
  answered to \<^verbatim>\<open>vo[vo_id].patch\<close>.\<close>

record accountpage =
  get_vo :: "string \<Rightarrow> error + vo_info"
  get_vo_quota :: "string \<Rightarrow> error + quota list"
  get_account :: "string \<Rightarrow> error + account_info"
  get_autogroup :: "string \<Rightarrow> error + autogroup_info"
  get_modified_members :: "string \<Rightarrow> string \<Rightarrow> error + string list"
  get_member :: "string \<Rightarrow> member"
  patch_vo_status :: "string \<Rightarrow> error + vo_status"

text \<open>The constants and tables of \<^verbatim>\<open>vsc.config.base\<close> (\<^verbatim>\<open>VSC()\<close>, \<^verbatim>\<open>VscStorage()\<close>) that
  vo.py reads, as parameters. A table lookup that has no entry is \<open>None\<close>. \<open>storage_of\<close>
  is \<^verbatim>\<open>self.storage[institute][name]\<close>, \<open>storage_quota_vo\<close> is
  \<^verbatim>\<open>self.storage[name].quota_vo\<close>, \<open>path_template_vo\<close> is the first component of
  \<^verbatim>\<open>self.storage.path_templates[institute][name]['vo']\<close>, \<open>nobody_uid\<close> is
  \<^verbatim>\<open>pwd.getpwnam('nobody').pw_uid\<close>. \<open>quota_soft_fraction\<close> is a Python float in the
  source and a real number here.\<close>

record config =
  VSC_HOME :: string
  VSC_DATA :: string
  VSC_DATA_SHARED :: string
  DATA_KEY :: string
  SCRATCH_KEY :: string
  STORAGE_SHARED_SUFFIX :: string
  DEFAULT_VOS_ALL :: "string list"
  INSTITUTE_VOS_BY_INSTITUTE :: "string \<Rightarrow> string option"
  VSC_PRODUCTION_SCRATCH :: "string \<Rightarrow> string list option"
  VO_PREFIX_BY_INSTITUTE :: "string \<Rightarrow> string option"
  VO_SHARED_PREFIX_BY_INSTITUTE :: "string \<Rightarrow> string option"
  quota_soft_fraction :: real
  vo_storage_grace_time :: int
  storage_of :: "string \<Rightarrow> string \<Rightarrow> storage option"
  storage_quota_vo :: "string \<Rightarrow> int option"
  path_template_vo :: "string \<Rightarrow> string \<Rightarrow> (string \<Rightarrow> string) option"
  nobody_uid :: int

text \<open>The environment of a run. \<open>respond\<close> is the storage backend: given the trace so far
  and a call it raises or returns; the Boolean is the truth value of what it returns,
  read only after \<^verbatim>\<open>get_fileset_info\<close>. The dry-run flag that \<^verbatim>\<open>__setattr__\<close> copies
  into the backend objects is part of the backend and so of \<open>respond\<close>.\<close>

record env =
  cfg :: config
  ap :: accountpage
  respond :: "call list \<Rightarrow> call \<Rightarrow> error + bool"

text \<open>A \<^verbatim>\<open>VscTier2AccountpageVo\<close> instance.\<close>

record vo_object =
  vo_id :: string
  host_institute :: string
  dry_run :: bool

section \<open>Computations that raise and leave a trace\<close>

type_synonym 'a io = "call list \<Rightarrow> (error + 'a) \<times> call list"

definition ret :: "'a \<Rightarrow> 'a io" where
  "ret x tr = (Inr x, tr)"

definition raise :: "error \<Rightarrow> 'a io" where
  "raise e tr = (Inl e, tr)"

definition lift :: "error + 'a \<Rightarrow> 'a io" where
  "lift r tr = (r, tr)"

definition bind :: "'a io \<Rightarrow> ('a \<Rightarrow> 'b io) \<Rightarrow> 'b io" where
  "bind m f tr =
     (case m tr of
        (Inl e, tr') \<Rightarrow> (Inl e, tr')
      | (Inr x, tr') \<Rightarrow> f x tr')"

definition seq :: "'a io \<Rightarrow> 'b io \<Rightarrow> 'b io" where
  "seq m n = bind m (\<lambda>_. n)"

text \<open>A call to the backend: the call is recorded, and the backend answers.\<close>

definition backend_call :: "env \<Rightarrow> call \<Rightarrow> bool io" where
  "backend_call env c tr = (respond env tr c, tr @ [c])"

text \<open>\<^verbatim>\<open>int(x)\<close> on a number: truncation towards zero.\<close>

definition py_int :: "real \<Rightarrow> int" where
  "py_int x = (if 0 \<le> x then \<lfloor>x\<rfloor> else \<lceil>x\<rceil>)"

section \<open>vo.py: the VO object\<close>

definition storage_lookup :: "env \<Rightarrow> vo_object \<Rightarrow> string \<Rightarrow> storage option" where
  "storage_lookup env vo storage_name = storage_of (cfg env) (host_institute vo) storage_name"

text \<open>Property \<^verbatim>\<open>vo\<close>.\<close>

definition the_vo :: "env \<Rightarrow> vo_object \<Rightarrow> vo_info io" where
  "the_vo env vo = lift (get_vo (ap env) (vo_id vo))"

text \<open>Property \<^verbatim>\<open>_institute_quota\<close> and the three getters built on it.\<close>

definition institute_quota :: "env \<Rightarrow> vo_object \<Rightarrow> quota list io" where
  "institute_quota env vo =
     bind (the_vo env vo) (\<lambda>v.
     bind (lift (get_vo_quota (ap env) (vsc_id v))) (\<lambda>all_quota.
     ret (filter (\<lambda>q. quota_institute q = host_institute vo) all_quota)))"

definition get_institute_data_quota :: "env \<Rightarrow> vo_object \<Rightarrow> quota list io" where
  "get_institute_data_quota env vo =
     bind (institute_quota env vo) (\<lambda>qs.
     ret (filter (\<lambda>q. quota_storage_type q = DATA_KEY (cfg env)) qs))"

definition get_institute_non_shared_data_quota :: "env \<Rightarrow> vo_object \<Rightarrow> int list io" where
  "get_institute_non_shared_data_quota env vo =
     bind (get_institute_data_quota env vo) (\<lambda>qs.
     ret (map quota_hard
            (filter (\<lambda>q. \<not> suffix (STORAGE_SHARED_SUFFIX (cfg env)) (quota_storage_name q)) qs)))"

definition get_institute_shared_data_quota :: "env \<Rightarrow> vo_object \<Rightarrow> int list io" where
  "get_institute_shared_data_quota env vo =
     bind (get_institute_data_quota env vo) (\<lambda>qs.
     ret (map quota_hard
            (filter (\<lambda>q. suffix (STORAGE_SHARED_SUFFIX (cfg env)) (quota_storage_name q)) qs)))"

text \<open>Property \<^verbatim>\<open>vo_data_quota\<close>: the first non-shared data quota, or the default of the
  data storage.\<close>

definition vo_data_quota :: "env \<Rightarrow> vo_object \<Rightarrow> int io" where
  "vo_data_quota env vo =
     bind (get_institute_non_shared_data_quota env vo) (\<lambda>qs.
     case qs of
       q # _ \<Rightarrow> ret q
     | [] \<Rightarrow> (case storage_quota_vo (cfg env) (VSC_DATA (cfg env)) of
                None \<Rightarrow> raise KeyError
              | Some q \<Rightarrow> ret q))"

text \<open>Property \<^verbatim>\<open>vo_data_shared_quota\<close>: \<^verbatim>\<open>None\<close> on \<^verbatim>\<open>IndexError\<close>.\<close>

definition vo_data_shared_quota :: "env \<Rightarrow> vo_object \<Rightarrow> int option io" where
  "vo_data_shared_quota env vo =
     bind (get_institute_shared_data_quota env vo) (\<lambda>qs.
     case qs of
       [] \<Rightarrow> ret None
     | q # _ \<Rightarrow> ret (Some q))"

definition vo_scratch_quota :: "env \<Rightarrow> vo_object \<Rightarrow> quota list io" where
  "vo_scratch_quota env vo =
     bind (institute_quota env vo) (\<lambda>qs.
     ret (filter (\<lambda>q. quota_storage_type q = SCRATCH_KEY (cfg env)) qs))"

definition data_sharing :: "env \<Rightarrow> vo_object \<Rightarrow> bool io" where
  "data_sharing env vo =
     bind (vo_data_shared_quota env vo) (\<lambda>q. ret (q \<noteq> None))"

text \<open>The name of the sharing group: the VO id with the VO prefix of its institute
  replaced by the shared prefix. Both table lookups raise \<^verbatim>\<open>KeyError\<close> when missing.\<close>

definition shared_name :: "env \<Rightarrow> vo_info \<Rightarrow> string io" where
  "shared_name env v =
     (case VO_PREFIX_BY_INSTITUTE (cfg env) (institute_name v) of
        None \<Rightarrow> raise KeyError
      | Some old \<Rightarrow>
          (case VO_SHARED_PREFIX_BY_INSTITUTE (cfg env) (institute_name v) of
             None \<Rightarrow> raise KeyError
           | Some new \<Rightarrow> ret (str_replace old new (vsc_id v))))"

text \<open>Property \<^verbatim>\<open>sharing_group\<close>.\<close>

definition sharing_group :: "env \<Rightarrow> vo_object \<Rightarrow> autogroup_info option io" where
  "sharing_group env vo =
     bind (data_sharing env vo) (\<lambda>sharing.
     if \<not> sharing then ret None
     else bind (the_vo env vo) (\<lambda>v.
          bind (shared_name env v) (\<lambda>group_name.
          bind (lift (get_autogroup (ap env) group_name)) (\<lambda>g.
          ret (Some g)))))"

text \<open>\<^verbatim>\<open>_get_path\<close>: the template is looked up before its argument \<^verbatim>\<open>self.vo.vsc_id\<close> is
  evaluated.\<close>

definition get_path :: "env \<Rightarrow> vo_object \<Rightarrow> string \<Rightarrow> string \<Rightarrow> string io" where
  "get_path env vo storage_name mount_point =
     (case path_template_vo (cfg env) (host_institute vo) storage_name of
        None \<Rightarrow> raise KeyError
      | Some template \<Rightarrow>
          bind (the_vo env vo) (\<lambda>v.
          let path = template (vsc_id v)
          in if mount_point = ''login'' then
               (case storage_lookup env vo storage_name of
                  None \<Rightarrow> raise KeyError
                | Some st \<Rightarrow> ret (path_join (login_mount_point st) path))
             else if mount_point = ''backend'' then
               (case storage_lookup env vo storage_name of
                  None \<Rightarrow> raise KeyError
                | Some st \<Rightarrow> ret (path_join (backend_mount_point st) path))
             else raise PlainException))"

definition data_path :: "env \<Rightarrow> vo_object \<Rightarrow> string \<Rightarrow> string io" where
  "data_path env vo mount_point = get_path env vo (VSC_DATA (cfg env)) mount_point"

definition data_shared_path :: "env \<Rightarrow> vo_object \<Rightarrow> string \<Rightarrow> string io" where
  "data_shared_path env vo mount_point = get_path env vo (VSC_DATA_SHARED (cfg env)) mount_point"

definition scratch_path :: "env \<Rightarrow> vo_object \<Rightarrow> string \<Rightarrow> string \<Rightarrow> string io" where
  "scratch_path env vo storage_name mount_point = get_path env vo storage_name mount_point"

text \<open>The moderator lookup of \<^verbatim>\<open>_create_fileset\<close>, inside its \<^verbatim>\<open>try\<close>:
  \<^verbatim>\<open>mkVscAccount(self.rest_client.account[self.vo.moderators[0]].get()[1])\<close>.\<close>

definition first_moderator :: "env \<Rightarrow> vo_object \<Rightarrow> error + account_info" where
  "first_moderator env vo =
     (case get_vo (ap env) (vo_id vo) of
        Inl e \<Rightarrow> Inl e
      | Inr v \<Rightarrow>
          (case moderators v of
             [] \<Rightarrow> Inl IndexError
           | m # _ \<Rightarrow> get_account (ap env) m))"

text \<open>\<^verbatim>\<open>_create_fileset\<close>. \<^verbatim>\<open>AttributeError\<close> from \<^verbatim>\<open>list_filesets\<close> is logged and
  swallowed; a missing \<^verbatim>\<open>filesystem\<close> attribute is logged and leaves \<^verbatim>\<open>filesystem_name\<close>
  unbound, which raises where it is first read. A false \<^verbatim>\<open>fileset_name\<close> (\<^verbatim>\<open>None\<close> or
  empty) or \<^verbatim>\<open>group_owner_id\<close> (\<^verbatim>\<open>None\<close> or 0) is replaced by the VO's own.\<close>

definition create_fileset ::
    "env \<Rightarrow> vo_object \<Rightarrow> storage \<Rightarrow> string \<Rightarrow> string option \<Rightarrow> string option \<Rightarrow> int option
      \<Rightarrow> unit io" where
  "create_fileset env vo st path parent_fileset fileset_name group_owner_id =
     bind (\<lambda>tr. case backend_call env ListFilesets tr of
                  (Inl AttributeError, tr') \<Rightarrow> (Inr (), tr')
                | (Inl e, tr') \<Rightarrow> (Inl e, tr')
                | (Inr _, tr') \<Rightarrow> (Inr (), tr')) (\<lambda>_.
     bind (case fileset_name of
             None \<Rightarrow> bind (the_vo env vo) (\<lambda>v. ret (vsc_id v))
           | Some n \<Rightarrow> if n = [] then bind (the_vo env vo) (\<lambda>v. ret (vsc_id v)) else ret n)
       (\<lambda>fileset_name.
     bind (case group_owner_id of
             None \<Rightarrow> bind (the_vo env vo) (\<lambda>v. ret (vsc_id_number v))
           | Some g \<Rightarrow> if g = 0 then bind (the_vo env vo) (\<lambda>v. ret (vsc_id_number v)) else ret g)
       (\<lambda>fileset_group_owner_id.
     bind (case filesystem st of
             None \<Rightarrow> raise UnboundLocalError
           | Some filesystem_name \<Rightarrow>
               backend_call env (GetFilesetInfo filesystem_name fileset_name)) (\<lambda>info.
     bind (if \<not> info then
             seq (backend_call env (MakeDir (dirname path)))
                 (backend_call env (MakeFileset path fileset_name parent_fileset))
           else bind (the_vo env vo) (\<lambda>_. ret True)) (\<lambda>_.
     bind (backend_call env (Chmod 504 path)) (\<lambda>_.
     (case first_moderator env vo of
        Inl HTTPError \<Rightarrow>
          seq (backend_call env (Chown (nobody_uid (cfg env)) fileset_group_owner_id path)) (ret ())
      | Inl IndexError \<Rightarrow>
          seq (backend_call env (Chown (nobody_uid (cfg env)) fileset_group_owner_id path)) (ret ())
      | Inl e \<Rightarrow> raise e
      | Inr moderator \<Rightarrow>
          seq (backend_call env
                 (Chown (account_vsc_id_number moderator) fileset_group_owner_id path))
              (ret ()))))))))"

text \<open>\<^verbatim>\<open>create_data_fileset\<close>: a missing storage entry is logged and nothing is created.\<close>

definition create_data_fileset :: "env \<Rightarrow> vo_object \<Rightarrow> unit io" where
  "create_data_fileset env vo =
     bind (data_path env vo ''backend'') (\<lambda>path.
     case storage_lookup env vo (VSC_DATA (cfg env)) of
       None \<Rightarrow> ret ()
     | Some st \<Rightarrow> create_fileset env vo st path None None None)"

text \<open>\<^verbatim>\<open>create_data_shared_fileset\<close>: \<^verbatim>\<open>self.sharing_group.vsc_id\<close> on \<^verbatim>\<open>None\<close> raises
  \<^verbatim>\<open>AttributeError\<close>.\<close>

definition create_data_shared_fileset :: "env \<Rightarrow> vo_object \<Rightarrow> unit io" where
  "create_data_shared_fileset env vo =
     bind (data_shared_path env vo ''backend'') (\<lambda>path.
     case storage_lookup env vo (VSC_DATA_SHARED (cfg env)) of
       None \<Rightarrow> ret ()
     | Some st \<Rightarrow>
         bind (sharing_group env vo) (\<lambda>sg.
         case sg of
           None \<Rightarrow> raise AttributeError
         | Some g \<Rightarrow>
             create_fileset env vo st path None (Some (group_vsc_id g))
               (Some (group_vsc_id_number g))))"

text \<open>\<^verbatim>\<open>create_scratch_fileset\<close>: the \<^verbatim>\<open>try\<close> has no \<^verbatim>\<open>else\<close>, so after a \<^verbatim>\<open>KeyError\<close>
  the name \<^verbatim>\<open>storage\<close> is unbound.\<close>

definition create_scratch_fileset :: "env \<Rightarrow> vo_object \<Rightarrow> string \<Rightarrow> unit io" where
  "create_scratch_fileset env vo storage_name =
     bind (scratch_path env vo storage_name ''backend'') (\<lambda>path.
     case storage_lookup env vo storage_name of
       None \<Rightarrow> raise UnboundLocalError
     | Some st \<Rightarrow>
         if backend st = ''gpfs'' then
           (if [3, 5, 0, 0] \<le> version st
            then create_fileset env vo st path None None None
            else create_fileset env vo st path (Some ''root'') None None)
         else create_fileset env vo st path None None None)"

text \<open>\<^verbatim>\<open>_set_quota\<close>: \<^verbatim>\<open>quota\<close> in KiB; a \<^verbatim>\<open>KeyError\<close> on the storage is logged and leaves
  \<^verbatim>\<open>storage\<close> unbound.\<close>

definition set_quota ::
    "env \<Rightarrow> vo_object \<Rightarrow> string \<Rightarrow> string \<Rightarrow> int \<Rightarrow> string option \<Rightarrow> unit io" where
  "set_quota env vo storage_name path quota fileset_name =
     bind (case fileset_name of
             None \<Rightarrow> bind (the_vo env vo) (\<lambda>v. ret (vsc_id v))
           | Some n \<Rightarrow> if n = [] then bind (the_vo env vo) (\<lambda>v. ret (vsc_id v)) else ret n)
       (\<lambda>fileset_name.
     case storage_lookup env vo storage_name of
       None \<Rightarrow> raise UnboundLocalError
     | Some st \<Rightarrow>
         let hard0 = quota * 1024;
             hard = (if backend st = ''gpfs'' then hard0 * data_replication_factor st else hard0);
             soft = py_int (of_int hard * quota_soft_fraction (cfg env))
         in bind (backend_call env (SetFilesetQuota soft path fileset_name (Some hard))) (\<lambda>_.
            bind (backend_call env (SetFilesetGrace path (vo_storage_grace_time (cfg env)))) (\<lambda>_.
            ret ())))"

definition set_data_quota :: "env \<Rightarrow> vo_object \<Rightarrow> unit io" where
  "set_data_quota env vo =
     bind (vo_data_quota env vo) (\<lambda>q.
     if q \<noteq> 0 then
       bind (data_path env vo ''backend'') (\<lambda>path.
       set_quota env vo (VSC_DATA (cfg env)) path q None)
     else
       bind (data_path env vo ''backend'') (\<lambda>path.
       set_quota env vo (VSC_DATA (cfg env)) path (16 * 1024) None))"

definition set_data_shared_quota :: "env \<Rightarrow> vo_object \<Rightarrow> unit io" where
  "set_data_shared_quota env vo =
     bind (vo_data_shared_quota env vo) (\<lambda>sq.
     case sq of
       None \<Rightarrow> ret ()
     | Some q \<Rightarrow>
         if q = 0 then ret ()
         else bind (data_shared_path env vo ''backend'') (\<lambda>path.
              bind (the_vo env vo) (\<lambda>v.
              bind (shared_name env v) (\<lambda>name.
              set_quota env vo (VSC_DATA_SHARED (cfg env)) path q (Some name)))))"

text \<open>\<^verbatim>\<open>set_scratch_quota\<close>. With more than one matching record the source logs and
  executes a bare \<^verbatim>\<open>raise\<close> outside any handler, which raises \<^verbatim>\<open>RuntimeError\<close>.\<close>

definition set_scratch_quota :: "env \<Rightarrow> vo_object \<Rightarrow> string \<Rightarrow> unit io" where
  "set_scratch_quota env vo storage_name =
     bind (vo_scratch_quota env vo) (\<lambda>qs.
     let quota = filter (\<lambda>q. quota_storage_name q = storage_name) qs
     in if quota = [] then
          (case storage_quota_vo (cfg env) storage_name of
             None \<Rightarrow> raise KeyError
           | Some dflt \<Rightarrow>
               bind (scratch_path env vo storage_name ''backend'') (\<lambda>path.
               set_quota env vo storage_name path dflt None))
        else if length quota > 1 then raise RuntimeError
        else bind (scratch_path env vo storage_name ''backend'') (\<lambda>path.
             set_quota env vo storage_name path (quota_hard (hd quota)) None))"

text \<open>\<^verbatim>\<open>_set_member_quota\<close>: \<^verbatim>\<open>quota\<close> in KiB.\<close>

definition set_member_quota ::
    "env \<Rightarrow> vo_object \<Rightarrow> string \<Rightarrow> string \<Rightarrow> member \<Rightarrow> int \<Rightarrow> unit io" where
  "set_member_quota env vo storage_name path m quota =
     (case storage_lookup env vo storage_name of
        None \<Rightarrow> raise UnboundLocalError
      | Some st \<Rightarrow>
          let hard0 = quota * 1024;
              hard = (if backend st = ''gpfs'' then hard0 * data_replication_factor st else hard0);
              soft = py_int (of_int hard * quota_soft_fraction (cfg env))
          in bind (backend_call env
                     (SetUserQuota soft (account_vsc_id_number (member_account m)) path hard))
               (\<lambda>_. ret ()))"

text \<open>\<^verbatim>\<open>set_member_data_quota\<close>. The two guards return without raising; after them a single
  matching record is applied, several raise (bare \<^verbatim>\<open>raise\<close>), and none raises
  \<^verbatim>\<open>IndexError\<close> at \<^verbatim>\<open>quota[0]\<close>.\<close>

definition set_member_data_quota :: "env \<Rightarrow> vo_object \<Rightarrow> member \<Rightarrow> unit io" where
  "set_member_data_quota env vo m =
     bind (vo_data_quota env vo) (\<lambda>vq.
     if vq = 0 then ret ()
     else bind (the_vo env vo) (\<lambda>v.
       if vsc_id v \<in> set (DEFAULT_VOS_ALL (cfg env)) then ret ()
       else if member_vo_data_quota m \<noteq> [] then
         (let quota = filter
                (\<lambda>q. quota_fileset q = vsc_id v
                     \<and> \<not> suffix (STORAGE_SHARED_SUFFIX (cfg env)) (quota_storage_name q))
                (member_vo_data_quota m)
          in if length quota > 1 then raise RuntimeError
             else (case quota of
                     [] \<Rightarrow> raise IndexError
                   | q # _ \<Rightarrow>
                       bind (data_path env vo ''backend'') (\<lambda>path.
                       set_member_quota env vo (VSC_DATA (cfg env)) path m (quota_hard q))))
       else ret ()))"

definition set_member_scratch_quota :: "env \<Rightarrow> vo_object \<Rightarrow> string \<Rightarrow> member \<Rightarrow> unit io" where
  "set_member_scratch_quota env vo storage_name m =
     bind (vo_scratch_quota env vo) (\<lambda>vsq.
     if vsq = [] then ret ()
     else bind (the_vo env vo) (\<lambda>v.
       if vsc_id v \<in> set (DEFAULT_VOS_ALL (cfg env)) then ret ()
       else if member_vo_scratch_quota m \<noteq> [] then
         (case filter (\<lambda>q. quota_storage_name q = storage_name \<and> quota_fileset q = vo_id vo)
                 (member_vo_scratch_quota m) of
            [] \<Rightarrow> ret ()
          | q # _ \<Rightarrow>
              bind (scratch_path env vo storage_name ''backend'') (\<lambda>path.
              set_member_quota env vo storage_name path m (quota_hard q)))
       else ret ()))"

text \<open>\<^verbatim>\<open>_create_member_dir\<close>; after a \<^verbatim>\<open>KeyError\<close> the name \<^verbatim>\<open>fs_backend\<close> is unbound.\<close>

definition create_member_dir :: "env \<Rightarrow> vo_object \<Rightarrow> member \<Rightarrow> string \<Rightarrow> string \<Rightarrow> unit io" where
  "create_member_dir env vo m target storage_name =
     (case storage_lookup env vo storage_name of
        None \<Rightarrow> raise UnboundLocalError
      | Some st \<Rightarrow>
          bind (backend_call env
                  (CreateStatDirectory target 448 (account_vsc_id_number (member_account m))
                     (usergroup_vsc_id_number m) False))
            (\<lambda>_. ret ()))"

definition create_member_data_dir :: "env \<Rightarrow> vo_object \<Rightarrow> member \<Rightarrow> unit io" where
  "create_member_data_dir env vo m =
     bind (data_path env vo ''backend'') (\<lambda>p.
     create_member_dir env vo m (path_join p (user_id m)) (VSC_DATA (cfg env)))"

text \<open>\<^verbatim>\<open>create_member_scratch_dir\<close> passes the table \<^verbatim>\<open>VSC_PRODUCTION_SCRATCH\<close> itself
  (indexed by institute in \<^verbatim>\<open>process_vos\<close>, hence a dictionary) as the storage name.
  A dictionary is not hashable: the lookup \<^verbatim>\<open>self.storage[institute][storage_name]\<close>
  raises \<^verbatim>\<open>TypeError\<close>, which \<^verbatim>\<open>except KeyError\<close> does not catch.\<close>

definition create_member_scratch_dir :: "env \<Rightarrow> vo_object \<Rightarrow> string \<Rightarrow> member \<Rightarrow> unit io" where
  "create_member_scratch_dir env vo storage_name m =
     bind (scratch_path env vo storage_name ''backend'') (\<lambda>p.
     raise TypeError)"

text \<open>\<^verbatim>\<open>update_vo_status\<close>. Both log lines read \<^verbatim>\<open>vo.vo.status\<close>. On \<^verbatim>\<open>HTTPError\<close> the
  message is formatted with two conversions and one argument, which raises
  \<^verbatim>\<open>TypeError\<close> before \<^verbatim>\<open>VoStatusUpdateError\<close> is built.\<close>

definition update_vo_status :: "env \<Rightarrow> vo_object \<Rightarrow> unit io" where
  "update_vo_status env vo =
     (if dry_run vo then bind (the_vo env vo) (\<lambda>_. ret ())
      else bind (the_vo env vo) (\<lambda>v.
        if status v \<notin> {NEW, MODIFIED, MODIFY} then ret ()
        else (\<lambda>tr.
          case patch_vo_status (ap env) (vo_id vo) of
            Inl HTTPError \<Rightarrow> (Inl TypeError, tr @ [PatchVoStatus (vo_id vo) ACTIVE])
          | Inl e \<Rightarrow> (Inl e, tr @ [PatchVoStatus (vo_id vo) ACTIVE])
          | Inr new_status \<Rightarrow>
              if new_status = ACTIVE then (Inr (), tr @ [PatchVoStatus (vo_id vo) ACTIVE])
              else (Inl UserStatusUpdateError, tr @ [PatchVoStatus (vo_id vo) ACTIVE]))))"

section \<open>vo.py: process_vos\<close>

text \<open>A value stored in the result dictionaries: a list of member ids, or the bound method
  \<^verbatim>\<open>vo.members\<close> of the VO object with the given id. \<^verbatim>\<open>members\<close> is declared with
  \<^verbatim>\<open>def\<close> and without \<^verbatim>\<open>@property\<close>, so the expression \<^verbatim>\<open>vo.members\<close> is the method and
  not the list it would return when called.\<close>

datatype entry = Ids "string list" | BoundMethod_members string

text \<open>The monoid \<^verbatim>\<open>Monoid([], lambda xs, ys: xs + ys)\<close>: list concatenation, which raises
  \<^verbatim>\<open>TypeError\<close> when an operand is not a list. Calling the monoid folds its arguments
  from \<^verbatim>\<open>null\<close>.\<close>

definition mappend :: "entry \<Rightarrow> entry \<Rightarrow> error + entry" where
  "mappend xs ys =
     (case xs of
        Ids a \<Rightarrow> (case ys of Ids b \<Rightarrow> Inr (Ids (a @ b)) | BoundMethod_members _ \<Rightarrow> Inl TypeError)
      | BoundMethod_members _ \<Rightarrow> Inl TypeError)"

definition monoid_call :: "entry \<Rightarrow> entry \<Rightarrow> error + entry" where
  "monoid_call current v =
     (case mappend (Ids []) current of
        Inl e \<Rightarrow> Inl e
      | Inr acc \<Rightarrow> mappend acc v)"

text \<open>\<^verbatim>\<open>MonoidDict\<close> of \<^verbatim>\<open>vsc.utils.missing\<close>, a dictionary in insertion order.
  \<^verbatim>\<open>__setitem__\<close> combines the value with the one present, and stores it as it is when
  the key is new; \<^verbatim>\<open>__getitem__\<close> answers \<^verbatim>\<open>null\<close> for a missing key.\<close>

type_synonym monoid_dict = "(string \<times> entry) list"

fun md_update :: "string \<Rightarrow> entry \<Rightarrow> monoid_dict \<Rightarrow> monoid_dict" where
  "md_update k v [] = [(k, v)]"
| "md_update k v (p # ps) = (if fst p = k then (k, v) # ps else p # md_update k v ps)"

definition md_setitem :: "monoid_dict \<Rightarrow> string \<Rightarrow> entry \<Rightarrow> error + monoid_dict" where
  "md_setitem d k v =
     (case map_of d k of
        None \<Rightarrow> Inr (md_update k v d)
      | Some current \<Rightarrow>
          (case monoid_call current v of
             Inl e \<Rightarrow> Inl e
           | Inr combined \<Rightarrow> Inr (md_update k combined d)))"


text \<open>The state of the loops: \<^verbatim>\<open>ok_vos\<close> and \<^verbatim>\<open>error_vos\<close>, which are mutated in place and so
  survive an exception, and the trace. A loop answers \<open>Some e\<close> when \<open>e\<close> escapes it.\<close>

type_synonym dicts = "monoid_dict \<times> monoid_dict"

text \<open>The factory of \<^verbatim>\<open>process_vos\<close>: the member object for an id of the changeset.\<close>

definition factory :: "env \<Rightarrow> string \<Rightarrow> member" where
  "factory env vid = (get_member (ap env) vid)\<lparr>user_id := vid\<rparr>"

text \<open>The body of the outer \<^verbatim>\<open>try\<close> up to the member loop. \<open>None\<close> is \<^verbatim>\<open>continue\<close>;
  \<open>Some ms\<close> is the list \<^verbatim>\<open>modified_members\<close>, in the order of the account page's answer.\<close>

definition vo_steps ::
    "env \<Rightarrow> vo_object \<Rightarrow> string \<Rightarrow> string \<Rightarrow> member list option io" where
  "vo_steps env vo storage_name datestamp =
     (if storage_name = VSC_HOME (cfg env) then ret None
      else
        bind (if storage_name = VSC_DATA (cfg env)
                 \<and> vo_id vo \<notin> set (DEFAULT_VOS_ALL (cfg env))
              then seq (create_data_fileset env vo)
                  (seq (set_data_quota env vo) (update_vo_status env vo))
              else ret ()) (\<lambda>_.
        bind (if storage_name = VSC_DATA_SHARED (cfg env)
                 \<and> vo_id vo \<notin> set (DEFAULT_VOS_ALL (cfg env))
              then bind (data_sharing env vo) (\<lambda>sharing.
                   if sharing
                   then seq (create_data_shared_fileset env vo) (set_data_shared_quota env vo)
                   else ret ())
              else ret ()) (\<lambda>_.
        case INSTITUTE_VOS_BY_INSTITUTE (cfg env) (host_institute vo) of
          None \<Rightarrow> raise KeyError
        | Some institute_vo \<Rightarrow>
            if vo_id vo = institute_vo then ret None
            else
              (case VSC_PRODUCTION_SCRATCH (cfg env) (host_institute vo) of
                 None \<Rightarrow> raise KeyError
               | Some production_scratch \<Rightarrow>
                   bind (if storage_name \<in> set production_scratch
                         then seq (create_scratch_fileset env vo storage_name)
                                  (set_scratch_quota env vo storage_name)
                         else ret ()) (\<lambda>_.
                   if vo_id vo \<in> set (DEFAULT_VOS_ALL (cfg env))
                      \<and> (storage_name = VSC_HOME (cfg env) \<or> storage_name = VSC_DATA (cfg env))
                   then ret None
                   else
                     bind (lift (get_modified_members (ap env) (vo_id vo) datestamp)) (\<lambda>ids.
                     ret (Some (map (factory env) ids))))))))"

text \<open>The body of the inner \<^verbatim>\<open>try\<close> before the assignment to \<^verbatim>\<open>ok_vos\<close>.\<close>

definition member_steps :: "env \<Rightarrow> vo_object \<Rightarrow> string \<Rightarrow> member \<Rightarrow> unit io" where
  "member_steps env vo storage_name m =
     bind (if storage_name = VSC_DATA (cfg env)
           then seq (set_member_data_quota env vo m) (create_member_data_dir env vo m)
           else ret ()) (\<lambda>_.
     case VSC_PRODUCTION_SCRATCH (cfg env) (host_institute vo) of
       None \<Rightarrow> raise KeyError
     | Some production_scratch \<Rightarrow>
         if storage_name \<in> set production_scratch
         then seq (set_member_scratch_quota env vo storage_name m)
                  (create_member_scratch_dir env vo storage_name m)
         else ret ())"

text \<open>The inner handler: \<^verbatim>\<open>error_vos[vo.vo_id] = [member.account.vsc_id]\<close>. An exception
  of the assignment escapes the inner \<^verbatim>\<open>try\<close>.\<close>

definition member_failed :: "vo_object \<Rightarrow> member \<Rightarrow> dicts \<Rightarrow> error option \<times> dicts" where
  "member_failed vo m d =
     (case md_setitem (snd d) (vo_id vo) (Ids [account_vsc_id (member_account m)]) of
        Inl e \<Rightarrow> (Some e, d)
      | Inr error_vos \<Rightarrow> (None, (fst d, error_vos)))"

text \<open>One iteration of \<^verbatim>\<open>for member in modified_members\<close>.\<close>

definition process_member ::
    "env \<Rightarrow> vo_object \<Rightarrow> string \<Rightarrow> member \<Rightarrow> dicts \<Rightarrow> call list
      \<Rightarrow> (error option \<times> dicts) \<times> call list" where
  "process_member env vo storage_name m d tr =
     (case member_steps env vo storage_name m tr of
        (Inl e, tr') \<Rightarrow> (member_failed vo m d, tr')
      | (Inr _, tr') \<Rightarrow>
          (case md_setitem (fst d) (vo_id vo) (Ids [account_vsc_id (member_account m)]) of
             Inl e \<Rightarrow> (member_failed vo m d, tr')
           | Inr ok_vos \<Rightarrow> ((None, (ok_vos, snd d)), tr')))"

fun process_members ::
    "env \<Rightarrow> vo_object \<Rightarrow> string \<Rightarrow> member list \<Rightarrow> dicts \<Rightarrow> call list
      \<Rightarrow> (error option \<times> dicts) \<times> call list" where
  "process_members env vo storage_name [] d tr = ((None, d), tr)"
| "process_members env vo storage_name (m # ms) d tr =
     (case process_member env vo storage_name m d tr of
        ((Some e, d'), tr') \<Rightarrow> ((Some e, d'), tr')
      | ((None, d'), tr') \<Rightarrow> process_members env vo storage_name ms d' tr')"

text \<open>The outer handler: \<^verbatim>\<open>error_vos[vo.vo_id] = vo.members\<close>. An exception of the
  assignment escapes \<^verbatim>\<open>process_vos\<close>.\<close>

definition vo_failed :: "vo_object \<Rightarrow> dicts \<Rightarrow> error option \<times> dicts" where
  "vo_failed vo d =
     (case md_setitem (snd d) (vo_id vo) (BoundMethod_members (vo_id vo)) of
        Inl e \<Rightarrow> (Some e, d)
      | Inr error_vos \<Rightarrow> (None, (fst d, error_vos)))"

text \<open>One iteration of \<^verbatim>\<open>for vo_id in sorted(vo_ids)\<close>: the VO object is built, its
  \<^verbatim>\<open>dry_run\<close> set, and the outer \<^verbatim>\<open>try\<close> runs.\<close>

definition process_vo ::
    "env \<Rightarrow> bool \<Rightarrow> string \<Rightarrow> string \<Rightarrow> string \<Rightarrow> string \<Rightarrow> dicts \<Rightarrow> call list
      \<Rightarrow> (error option \<times> dicts) \<times> call list" where
  "process_vo env options_dry_run storage_name datestamp host v d tr =
     (let vo = \<lparr> vo_id = v, host_institute = host, dry_run = options_dry_run \<rparr>
      in case vo_steps env vo storage_name datestamp tr of
           (Inl e, tr') \<Rightarrow> (vo_failed vo d, tr')
         | (Inr None, tr') \<Rightarrow> ((None, d), tr')
         | (Inr (Some modified_members), tr') \<Rightarrow>
             (case process_members env vo storage_name modified_members d tr' of
                ((Some e, d'), tr'') \<Rightarrow> (vo_failed vo d', tr'')
              | ((None, d'), tr'') \<Rightarrow> ((None, d'), tr'')))"

fun process_vos_loop ::
    "env \<Rightarrow> bool \<Rightarrow> string \<Rightarrow> string \<Rightarrow> string \<Rightarrow> string list \<Rightarrow> dicts \<Rightarrow> call list
      \<Rightarrow> (error option \<times> dicts) \<times> call list" where
  "process_vos_loop env options_dry_run storage_name datestamp host [] d tr = ((None, d), tr)"
| "process_vos_loop env options_dry_run storage_name datestamp host (v # vs) d tr =
     (case process_vo env options_dry_run storage_name datestamp host v d tr of
        ((Some e, d'), tr') \<Rightarrow> ((Some e, d'), tr')
      | ((None, d'), tr') \<Rightarrow>
          process_vos_loop env options_dry_run storage_name datestamp host vs d' tr')"

text \<open>\<^verbatim>\<open>process_vos(options, vo_ids, storage_name, client, datestamp, host_institute)\<close>,
  started on the trace \<open>tr\<close>: the pair \<^verbatim>\<open>(ok_vos, error_vos)\<close> or the exception that
  escapes, and the trace.\<close>

definition process_vos ::
    "env \<Rightarrow> bool \<Rightarrow> string list \<Rightarrow> string \<Rightarrow> string \<Rightarrow> string \<Rightarrow> call list
      \<Rightarrow> (error + dicts) \<times> call list" where
  "process_vos env options_dry_run vo_ids storage_name datestamp host tr =
     (case process_vos_loop env options_dry_run storage_name datestamp host (sort vo_ids)
             ([], []) tr of
        ((Some e, d), tr') \<Rightarrow> (Inl e, tr')
      | ((None, d), tr') \<Rightarrow> (Inr d, tr'))"

section \<open>project.py: MukProject\<close>

text \<open>A \<^verbatim>\<open>MukProject\<close> with what \<^verbatim>\<open>create_scratch_fileset\<close> reads: the project id, the
  submitter's uid (\<open>None\<close> when \<^verbatim>\<open>self.project.submitter\<close> is false), the group's gid, the
  quota, \<^verbatim>\<open>self.muk.scratch_name\<close>, the path template
  \<^verbatim>\<open>self.storage.path_templates[name]['project']\<close> and the two mount points of
  \<^verbatim>\<open>self.storage[name]\<close>; a missing table entry is \<open>None\<close>.\<close>

record muk_project =
  project_id :: string
  submitter_vsc_id_number :: "int option"
  project_group_vsc_id_number :: int
  project_scratch_quota :: int
  muk_scratch_name :: string
  project_template :: "(string \<times> (string \<Rightarrow> string)) option"
  muk_login_mount_point :: "string option"
  muk_gpfs_mount_point :: "string option"

definition muk_scratch_path :: "muk_project \<Rightarrow> string \<Rightarrow> string io" where
  "muk_scratch_path p mount_point =
     (case project_template p of
        None \<Rightarrow> raise KeyError
      | Some template \<Rightarrow>
          bind (if mount_point = ''login'' then
                  (case muk_login_mount_point p of None \<Rightarrow> raise KeyError | Some mp \<Rightarrow> ret mp)
                else if mount_point = ''gpfs'' then
                  (case muk_gpfs_mount_point p of None \<Rightarrow> raise KeyError | Some mp \<Rightarrow> ret mp)
                else raise PlainException) (\<lambda>mount_path.
          ret (path_join (path_join mount_path (fst template)) (snd template (project_id p)))))"

definition muk_create_scratch_fileset :: "env \<Rightarrow> muk_project \<Rightarrow> unit io" where
  "muk_create_scratch_fileset env p =
     bind (backend_call env ListFilesets) (\<lambda>_.
     bind (muk_scratch_path p ''gpfs'') (\<lambda>path.
     bind (backend_call env (GetFilesetInfo (muk_scratch_name p) (project_id p))) (\<lambda>info.
     bind (if \<not> info then
             seq (backend_call env (MakeDir (dirname path)))
                 (backend_call env (MakeFileset path (project_id p) None))
           else ret True) (\<lambda>_.
     bind (backend_call env (Chmod 504 path)) (\<lambda>_.
     bind (case submitter_vsc_id_number p of
             Some uid \<Rightarrow> backend_call env (Chown uid (project_group_vsc_id_number p) path)
           | None \<Rightarrow>
               backend_call env
                 (Chown (nobody_uid (cfg env)) (project_group_vsc_id_number p) path)) (\<lambda>_.
     bind (backend_call env
             (SetFilesetQuota (project_scratch_quota p) path (project_id p) None)) (\<lambda>_.
     ret ())))))))"

section \<open>A concrete site\<close>

text \<open>A small site used to evaluate the functions on concrete inputs: the institute
  \<open>gent\<close> with one GPFS storage of replication factor 2, the VO \<open>gvo00001\<close>, the default
  VO \<open>gvo00012\<close>, and a VO \<open>gvo00002\<close> that the account page does not know.\<close>

definition ex_storage :: storage where
  "ex_storage =
     \<lparr> backend = ''gpfs'', filesystem = Some ''kyukondata'', version = [4, 2, 0, 0],
       data_replication_factor = 2, login_mount_point = ''/user'',
       backend_mount_point = ''/kyukon'' \<rparr>"

definition ex_cfg :: config where
  "ex_cfg =
     \<lparr> VSC_HOME = ''VSC_HOME'', VSC_DATA = ''VSC_DATA'', VSC_DATA_SHARED = ''VSC_DATA_SHARED'',
       DATA_KEY = ''data'', SCRATCH_KEY = ''scratch'', STORAGE_SHARED_SUFFIX = ''_SHARED'',
       DEFAULT_VOS_ALL = [''gvo00012''],
       INSTITUTE_VOS_BY_INSTITUTE = (\<lambda>h. if h = ''gent'' then Some ''gvo00012'' else None),
       VSC_PRODUCTION_SCRATCH =
         (\<lambda>h. if h = ''gent'' then Some [''VSC_SCRATCH_KYUKON''] else None),
       VO_PREFIX_BY_INSTITUTE = (\<lambda>h. if h = ''gent'' then Some ''gvo'' else None),
       VO_SHARED_PREFIX_BY_INSTITUTE = (\<lambda>h. if h = ''gent'' then Some ''gvos'' else None),
       quota_soft_fraction = 19 / 20,
       vo_storage_grace_time = 604800,
       storage_of = (\<lambda>h n. if h = ''gent'' then Some ex_storage else None),
       storage_quota_vo = (\<lambda>n. Some 104857600),
       path_template_vo = (\<lambda>h n. if h = ''gent'' then Some (\<lambda>v. ''vo/'' @ v) else None),
       nobody_uid = 65534 \<rparr>"

definition ex_quota :: "string \<Rightarrow> string \<Rightarrow> string \<Rightarrow> int \<Rightarrow> quota" where
  "ex_quota name type fs h =
     \<lparr> quota_storage_name = name, quota_storage_type = type, quota_institute = ''gent'',
       quota_fileset = fs, quota_hard = h \<rparr>"

text \<open>The members \<open>vsc40001\<close> and \<open>vsc40002\<close> have one data quota record in \<open>gvo00001\<close>;
  \<open>vsc40003\<close> has two in \<open>gvo00001\<close> and two in \<open>gvo00012\<close>.\<close>

definition ex_member :: "string \<Rightarrow> member" where
  "ex_member vid =
     \<lparr> user_id = vid,
       member_account =
         \<lparr> account_vsc_id = vid,
           account_vsc_id_number =
             (if vid = ''vsc40001'' then 2540001
              else if vid = ''vsc40002'' then 2540002 else 2540003) \<rparr>,
       usergroup_vsc_id_number =
         (if vid = ''vsc40001'' then 2540001
          else if vid = ''vsc40002'' then 2540002 else 2540003),
       member_vo_data_quota =
         (if vid = ''vsc40003''
          then [ex_quota ''VSC_DATA'' ''data'' ''gvo00001'' 1000,
                ex_quota ''VSC_DATA'' ''data'' ''gvo00001'' 3000,
                ex_quota ''VSC_DATA'' ''data'' ''gvo00012'' 1000,
                ex_quota ''VSC_DATA'' ''data'' ''gvo00012'' 3000]
          else [ex_quota ''VSC_DATA'' ''data'' ''gvo00001'' 1000]),
       member_vo_scratch_quota = [] \<rparr>"

definition ex_vo :: "string \<Rightarrow> vo_info" where
  "ex_vo v =
     \<lparr> vsc_id = v, vsc_id_number = 2640001, status = NEW,
       members = [''vsc40001'', ''vsc40002'', ''vsc40003''], moderators = [''vsc40001''],
       institute_name = ''gent'' \<rparr>"

text \<open>The account page: \<open>modified\<close> is the answer to the query for the members modified
  since the datestamp, in the order the account page gives them.\<close>

definition ex_ap :: "string list \<Rightarrow> accountpage" where
  "ex_ap modified =
     \<lparr> get_vo = (\<lambda>v. if v = ''gvo00001'' \<or> v = ''gvo00012'' then Inr (ex_vo v) else Inl HTTPError),
       get_vo_quota =
         (\<lambda>v. Inr [ex_quota ''VSC_DATA'' ''data'' v 2000,
                   ex_quota ''VSC_SCRATCH_KYUKON'' ''scratch'' v 5000,
                   ex_quota ''VSC_SCRATCH_KYUKON'' ''scratch'' v 6000]),
       get_account = (\<lambda>a. Inr \<lparr> account_vsc_id = a, account_vsc_id_number = 2540001 \<rparr>),
       get_autogroup = (\<lambda>g. Inl HTTPError),
       get_modified_members = (\<lambda>v ds. Inr modified),
       get_member = ex_member,
       patch_vo_status = (\<lambda>v. Inr ACTIVE) \<rparr>"

text \<open>Three backends. With \<open>ex_respond_absent\<close> no fileset exists and the directory of
  \<open>vsc40002\<close> cannot be created; with \<open>ex_respond_present\<close> every fileset exists and
  nothing fails; with \<open>ex_respond_broken\<close> no fileset can be created.\<close>

definition ex_respond_absent :: "call list \<Rightarrow> call \<Rightarrow> error + bool" where
  "ex_respond_absent tr c =
     (case c of
        GetFilesetInfo fs n \<Rightarrow> Inr False
      | CreateStatDirectory t m u g ov \<Rightarrow>
          if t = ''/kyukon/vo/gvo00001/vsc40002'' then Inl BackendError else Inr True
      | _ \<Rightarrow> Inr True)"

definition ex_respond_present :: "call list \<Rightarrow> call \<Rightarrow> error + bool" where
  "ex_respond_present tr c = Inr True"

definition ex_respond_broken :: "call list \<Rightarrow> call \<Rightarrow> error + bool" where
  "ex_respond_broken tr c =
     (case c of
        GetFilesetInfo fs n \<Rightarrow> Inr False
      | MakeFileset p n parent \<Rightarrow> Inl BackendError
      | _ \<Rightarrow> Inr True)"

definition ex_env :: "string list \<Rightarrow> (call list \<Rightarrow> call \<Rightarrow> error + bool) \<Rightarrow> env" where
  "ex_env modified answers = \<lparr> cfg = ex_cfg, ap = ex_ap modified, respond = answers \<rparr>"

definition ex_vo_object :: "string \<Rightarrow> vo_object" where
  "ex_vo_object v = \<lparr> vo_id = v, host_institute = ''gent'', dry_run = False \<rparr>"

definition ex_project :: muk_project where
  "ex_project =
     \<lparr> project_id = ''project00001'', submitter_vsc_id_number = None,
       project_group_vsc_id_number = 2700001, project_scratch_quota = 268435456000,
       muk_scratch_name = ''scratch'', project_template = Some (''projects'', (\<lambda>p. p)),
       muk_login_mount_point = Some ''/gpfs/scratch'',
       muk_gpfs_mount_point = Some ''/gpfs/scratch'' \<rparr>"

text \<open>A batch of three accounting commands, the second of which fails.\<close>

definition ex_commands :: "command list" where
  "ex_commands =
     [[''sacctmgr'', ''add'', ''account'', ''gvo00001''],
      [''sacctmgr'', ''add'', ''user'', ''nobody''],
      [''sacctmgr'', ''add'', ''account'', ''gvo00002'']]"

definition ex_run :: "command list \<Rightarrow> command \<Rightarrow> int" where
  "ex_run executed command = (if command = [''sacctmgr'', ''add'', ''user'', ''nobody''] then 1 else 0)"

section \<open>Notions used to state properties of traces\<close>

text \<open>The calls that create something on a backend: \<^verbatim>\<open>make_dir\<close> and \<^verbatim>\<open>make_fileset\<close>.\<close>

definition is_creation :: "call \<Rightarrow> bool" where
  "is_creation c = (case c of MakeDir _ \<Rightarrow> True | MakeFileset _ _ _ \<Rightarrow> True | _ \<Rightarrow> False)"

text \<open>\<open>yields Q P m\<close>: from every trace, the computation \<open>m\<close> only appends calls that satisfy
  \<open>P\<close>, and a value it returns satisfies \<open>Q\<close>.\<close>

definition yields :: "('a \<Rightarrow> bool) \<Rightarrow> (call \<Rightarrow> bool) \<Rightarrow> 'a io \<Rightarrow> bool" where
  "yields Q P m =
     (\<forall>tr. \<exists>new. snd (m tr) = tr @ new \<and> list_all P new
                \<and> (\<forall>x. fst (m tr) = Inr x \<longrightarrow> Q x))"

text \<open>Whether the provisioning of each member of a list returned (\<open>True\<close>) or raised
  (\<open>False\<close>), when the members are provisioned one after the other from the trace \<open>tr\<close>.\<close>

fun member_outcomes ::
    "env \<Rightarrow> vo_object \<Rightarrow> string \<Rightarrow> member list \<Rightarrow> call list \<Rightarrow> bool list" where
  "member_outcomes env vo storage_name [] tr = []"
| "member_outcomes env vo storage_name (m # ms) tr =
     (case member_steps env vo storage_name m tr of
        (Inl e, tr') \<Rightarrow> False # member_outcomes env vo storage_name ms tr'
      | (Inr _, tr') \<Rightarrow> True # member_outcomes env vo storage_name ms tr')"

text \<open>The ids (\<^verbatim>\<open>member.account.vsc_id\<close>) of the members with the given outcome, in the
  order of the list.\<close>

definition ids_with :: "bool \<Rightarrow> member list \<Rightarrow> bool list \<Rightarrow> string list" where
  "ids_with b ms outcomes =
     map (\<lambda>p. account_vsc_id (member_account (fst p))) (filter (\<lambda>p. snd p = b) (zip ms outcomes))"

text \<open>\<open>appends_key k d d'\<close>: the dictionary \<open>d'\<close> has the keys of \<open>d\<close> in the same order,
  possibly followed by the new key \<open>k\<close>.\<close>

definition appends_key :: "string \<Rightarrow> monoid_dict \<Rightarrow> monoid_dict \<Rightarrow> bool" where
  "appends_key k d d' =
     (map fst d' = map fst d \<or> (k \<notin> fst ` set d \<and> map fst d' = map fst d @ [k]))"

chapter \<open>Properties\<close>

section \<open>Laws of the computations\<close>

lemma bind_ret [simp]: "bind (ret x) f = f x"
  by (rule ext) (simp add: bind_def ret_def)

lemma bind_raise [simp]: "bind (raise e) f = raise e"
  by (rule ext) (simp add: bind_def raise_def)

lemma lift_Inl [simp]: "lift (Inl e) = raise e"
  by (rule ext) (simp add: lift_def raise_def)

lemma lift_Inr [simp]: "lift (Inr x) = ret x"
  by (rule ext) (simp add: lift_def ret_def)

section \<open>The command batch\<close>

lemma execute_commands_general:
  "execute_commands run cs d = (r, executed) \<Longrightarrow>
     (r = Inr () \<and> executed = d @ cs \<and> (\<forall>i<length cs. run (d @ take i cs) (cs ! i) = 0))
   \<or> (\<exists>i<length cs. r = Inl SacctMgrException \<and> executed = d @ take (Suc i) cs
         \<and> run (d @ take i cs) (cs ! i) \<noteq> 0
         \<and> (\<forall>j<i. run (d @ take j cs) (cs ! j) = 0))"
proof (induction cs arbitrary: d)
  case Nil
  then show ?case by simp
next
  case (Cons c cs)
  show ?case
  proof (cases "run d c = 0")
    case False
    with Cons.prems have "r = Inl SacctMgrException" "executed = d @ [c]" by (auto simp: Let_def)
    with False show ?thesis by (intro disjI2 exI[of _ 0]) simp
  next
    case True
    with Cons.prems have rec: "execute_commands run cs (d @ [c]) = (r, executed)" by (simp add: Let_def)
    from Cons.IH[OF rec] show ?thesis
    proof
      assume a: "r = Inr () \<and> executed = (d @ [c]) @ cs \<and> (\<forall>i<length cs. run ((d @ [c]) @ take i cs) (cs ! i) = 0)"
      have "\<forall>i<length (c # cs). run (d @ take i (c # cs)) ((c # cs) ! i) = 0"
      proof (intro allI impI)
        fix i assume "i < length (c # cs)"
        then show "run (d @ take i (c # cs)) ((c # cs) ! i) = 0"
          using a True by (cases i) auto
      qed
      with a show ?thesis by simp
    next
      assume "\<exists>i<length cs. r = Inl SacctMgrException \<and> executed = (d @ [c]) @ take (Suc i) cs
         \<and> run ((d @ [c]) @ take i cs) (cs ! i) \<noteq> 0
         \<and> (\<forall>j<i. run ((d @ [c]) @ take j cs) (cs ! j) = 0)"
      then obtain i where i: "i < length cs" "r = Inl SacctMgrException" "executed = (d @ [c]) @ take (Suc i) cs"
         "run ((d @ [c]) @ take i cs) (cs ! i) \<noteq> 0"
         "\<forall>j<i. run ((d @ [c]) @ take j cs) (cs ! j) = 0" by blast
      have "\<forall>j<Suc i. run (d @ take j (c # cs)) ((c # cs) ! j) = 0"
      proof (intro allI impI)
        fix j assume "j < Suc i"
        then show "run (d @ take j (c # cs)) ((c # cs) ! j) = 0"
          using i(5) True by (cases j) auto
      qed
      with i show ?thesis by (intro disjI2 exI[of _ "Suc i"]) simp
    qed
  qed
qed

text \<open>Claim C8. \<^verbatim>\<open>execute_commands\<close> runs the commands in the order of the list. Either
  every command exits with 0, all of them were run and the function returns; or there is a
  first command with a non-zero exit code, the function raises \<^verbatim>\<open>SacctMgrException\<close>,
  and the commands run are exactly those up to and including it: none after it is
  executed.\<close>

theorem execute_commands_stops_at_first_failure:
  "execute_commands run commands [] = (r, executed) \<Longrightarrow>
     (r = Inr () \<and> executed = commands
        \<and> (\<forall>i<length commands. run (take i commands) (commands ! i) = 0))
   \<or> (\<exists>i<length commands. r = Inl SacctMgrException \<and> executed = take (Suc i) commands
         \<and> run (take i commands) (commands ! i) \<noteq> 0
         \<and> (\<forall>j<i. run (take j commands) (commands ! j) = 0))"
  using execute_commands_general[of run commands "[]" r executed] by simp

text \<open>On the concrete batch the second command fails and the third is never run.\<close>

theorem execute_commands_stops_at_first_failure_witness:
  "execute_commands ex_run ex_commands [] = (Inl SacctMgrException, take 2 ex_commands)
   \<and> ex_run (take 1 ex_commands) (ex_commands ! 1) \<noteq> 0
   \<and> ex_run [] (ex_commands ! 0) = 0"
proof -
  have h: "execute_commands ex_run ex_commands [] = (Inl SacctMgrException, take 2 ex_commands)"
    by (simp add: ex_run_def ex_commands_def)
  from execute_commands_stops_at_first_failure[OF h] h show ?thesis
    by (simp add: ex_run_def ex_commands_def)
qed

section \<open>The status transition\<close>

text \<open>Claim C7. \<^verbatim>\<open>update_vo_status\<close> adds to the trace exactly one status patch to
  \<^verbatim>\<open>ACTIVE\<close> when dry-run is off and the VO's status is \<^verbatim>\<open>NEW\<close>, \<^verbatim>\<open>MODIFIED\<close> or
  \<^verbatim>\<open>MODIFY\<close>, and adds nothing in every other case: for any other status, and in dry-run
  for every status, nothing is written to the account page.\<close>

theorem update_vo_status_patches_iff:
  "snd (update_vo_status env vo tr) =
     tr @ (if \<not> dry_run vo
              \<and> (\<exists>v. get_vo (ap env) (vo_id vo) = Inr v \<and> status v \<in> {NEW, MODIFIED, MODIFY})
           then [PatchVoStatus (vo_id vo) ACTIVE] else [])"
proof (cases "get_vo (ap env) (vo_id vo)")
  case (Inl e)
  then show ?thesis
    by (simp add: update_vo_status_def the_vo_def raise_def)
next
  case (Inr v)
  then show ?thesis
    by (auto simp: update_vo_status_def the_vo_def ret_def split: sum.splits error.splits)
qed

text \<open>The VO \<open>gvo00001\<close> has status \<^verbatim>\<open>NEW\<close>: it is patched, and not in dry-run.\<close>

theorem update_vo_status_patches_iff_witness:
  "snd (update_vo_status (ex_env [] ex_respond_present) (ex_vo_object ''gvo00001'') [])
     = [PatchVoStatus ''gvo00001'' ACTIVE]
   \<and> snd (update_vo_status (ex_env [] ex_respond_present)
            ((ex_vo_object ''gvo00001'')\<lparr>dry_run := True\<rparr>) []) = []"
  using update_vo_status_patches_iff[of "ex_env [] ex_respond_present" "ex_vo_object ''gvo00001''" "[]"]
        update_vo_status_patches_iff[of "ex_env [] ex_respond_present"
           "(ex_vo_object ''gvo00001'')\<lparr>dry_run := True\<rparr>" "[]"]
  by (simp add: ex_env_def ex_ap_def ex_vo_object_def ex_vo_def)

section \<open>Quota limits\<close>





section \<open>The accounting dump\<close>

lemma sacct_dump_loop_jobs:
  "sacct_dump_loop header SacctTypes_jobs ls acc =
     Inr (acc \<union> (\<lambda>l. mkSlurmJobs (zip header (split_on CHR ''|'' (rstrip l)))) ` set ls)"
  by (induction ls arbitrary: acc) (auto simp: parse_slurm_sacct_line_def truthy_SlurmJobs_def)

lemma sacct_dump_loop_other:
  "info_type \<noteq> SacctTypes_jobs \<Longrightarrow>
     sacct_dump_loop header info_type (l # ls) acc = Inl SacctParseException"
  by (simp add: parse_slurm_sacct_line_def)

text \<open>Claim C4, as amended. With the selector \<^verbatim>\<open>SacctTypes.jobs\<close> the parser skips no data
  line and raises for none: whatever a line holds and wherever it stands, the dump with
  the line yields the records of the dump without it plus the record built from zipping the
  line's values with the header. The test \<^verbatim>\<open>if info:\<close> never fails, because
  \<^verbatim>\<open>parse_slurm_sacct_line\<close> returns a seven-field named tuple for every line.\<close>

theorem sacct_dump_adds_every_line:
  "\<exists>records.
     parse_slurm_sacct_dump (line0 # before @ after) SacctTypes_jobs = Inr records
   \<and> parse_slurm_sacct_dump (line0 # before @ line # after) SacctTypes_jobs
       = Inr (insert (mkSlurmJobs (zip (sacct_header line0) (split_on CHR ''|'' (rstrip line))))
                records)"
  by (auto simp: parse_slurm_sacct_dump_def sacct_dump_loop_jobs)

text \<open>The first job line of the repository's test.\<close>

theorem sacct_dump_adds_every_line_witness:
  "parse_slurm_sacct_dump
     [''JobID|JobName|Partition|Account|AllocCPUS|State|ExitCode'',
      ''14367800|normal|part1|acc1|1|RUNNING|0:0''] SacctTypes_jobs
     = Inr {\<lparr>JobID = Some ''14367800'', JobName = Some ''normal'', Partition = Some ''part1'',
             Account = Some ''acc1'', AllocCPUS = Some ''1'', State = Some ''RUNNING'',
             ExitCode = Some ''0:0''\<rparr>}
   \<and> parse_slurm_sacct_dump [''JobID|JobName|Partition|Account|AllocCPUS|State|ExitCode'']
       SacctTypes_jobs = Inr {}"
proof -
  have "parse_slurm_sacct_dump [''JobID|JobName|Partition|Account|AllocCPUS|State|ExitCode'']
       SacctTypes_jobs = Inr {}"
    by (simp add: parse_slurm_sacct_dump_def)
  with sacct_dump_adds_every_line[of "''JobID|JobName|Partition|Account|AllocCPUS|State|ExitCode''"
         "[]" "[]" "''14367800|normal|part1|acc1|1|RUNNING|0:0''"]
  have "parse_slurm_sacct_dump
     [''JobID|JobName|Partition|Account|AllocCPUS|State|ExitCode'',
      ''14367800|normal|part1|acc1|1|RUNNING|0:0''] SacctTypes_jobs
     = Inr {mkSlurmJobs (zip (sacct_header ''JobID|JobName|Partition|Account|AllocCPUS|State|ExitCode'')
              (split_on CHR ''|'' (rstrip ''14367800|normal|part1|acc1|1|RUNNING|0:0'')))}"
    by auto
  moreover have "mkSlurmJobs (zip (sacct_header ''JobID|JobName|Partition|Account|AllocCPUS|State|ExitCode'')
              (split_on CHR ''|'' (rstrip ''14367800|normal|part1|acc1|1|RUNNING|0:0'')))
     = \<lparr>JobID = Some ''14367800'', JobName = Some ''normal'', Partition = Some ''part1'',
             Account = Some ''acc1'', AllocCPUS = Some ''1'', State = Some ''RUNNING'',
             ExitCode = Some ''0:0''\<rparr>"
    by code_simp
  ultimately show ?thesis
    by (simp add: parse_slurm_sacct_dump_def)
qed

text \<open>Claim C4 as stated fails: an empty line and a line of another listing, neither of
  which describes a job, are not skipped; each adds a record.\<close>

theorem sacct_line_of_other_kind_not_skipped:
  "parse_slurm_sacct_dump
     [''JobID|JobName|Partition|Account|AllocCPUS|State|ExitCode'',
      ''14367800|normal|part1|acc1|1|RUNNING|0:0'',
      '''',
      ''acc1|ugent''] SacctTypes_jobs
     = Inr {\<lparr>JobID = Some ''14367800'', JobName = Some ''normal'', Partition = Some ''part1'',
             Account = Some ''acc1'', AllocCPUS = Some ''1'', State = Some ''RUNNING'',
             ExitCode = Some ''0:0''\<rparr>,
           \<lparr>JobID = Some '''', JobName = None, Partition = None, Account = None,
             AllocCPUS = None, State = None, ExitCode = None\<rparr>,
           \<lparr>JobID = Some ''acc1'', JobName = Some ''ugent'', Partition = None, Account = None,
             AllocCPUS = None, State = None, ExitCode = None\<rparr>}"
  by code_simp

text \<open>Claim C5, as amended. On a dump with a header line, \<^verbatim>\<open>parse_slurm_sacct_dump\<close>
  raises \<^verbatim>\<open>SacctParseException\<close>, and so returns no record, exactly when the selector is not
  \<^verbatim>\<open>SacctTypes.jobs\<close> and there is at least one data line. In every other case it returns
  the set of the records of all data lines, each built by zipping the line's values with
  the header columns up to the shorter of the two: the number of values is never compared
  with the number of columns.\<close>

theorem sacct_dump_raises_only_on_selector:
  "parse_slurm_sacct_dump (line0 # rest) info_type =
     (if info_type = SacctTypes_jobs \<or> rest = []
      then Inr ((\<lambda>line. mkSlurmJobs (zip (sacct_header line0) (split_on CHR ''|'' (rstrip line))))
                 ` set rest)
      else Inl SacctParseException)"
proof (cases "info_type = SacctTypes_jobs")
  case True
  then show ?thesis
    by (simp add: parse_slurm_sacct_dump_def sacct_dump_loop_jobs del: sacct_dump_loop.simps)
next
  case False
  then show ?thesis
    by (cases rest)
       (simp_all add: parse_slurm_sacct_dump_def sacct_dump_loop_other del: sacct_dump_loop.simps,
        simp)
qed

text \<open>The unknown selector of the repository's test, with and without a data line.\<close>

theorem sacct_dump_raises_only_on_selector_witness:
  "parse_slurm_sacct_dump [''JobID|State'', ''1|RUNNING''] (OtherSelector ''doesnotexist'')
     = Inl SacctParseException
   \<and> parse_slurm_sacct_dump [''JobID|State''] (OtherSelector ''doesnotexist'') = Inr {}"
  using sacct_dump_raises_only_on_selector[of "''JobID|State''" "[''1|RUNNING'']" "OtherSelector ''doesnotexist''"]
        sacct_dump_raises_only_on_selector[of "''JobID|State''" "[]" "OtherSelector ''doesnotexist''"]
  by simp

text \<open>Claim C5 as stated fails: a line with three values, and a line with one value, under
  a header of two columns raise nothing and yield a record each.\<close>

theorem sacct_count_mismatch_not_raised:
  "parse_slurm_sacct_dump [''JobID|State'', ''1|RUNNING|extra''] SacctTypes_jobs
     = Inr {\<lparr>JobID = Some ''1'', JobName = None, Partition = None, Account = None,
             AllocCPUS = None, State = Some ''RUNNING'', ExitCode = None\<rparr>}
   \<and> parse_slurm_sacct_dump [''JobID|State'', ''1''] SacctTypes_jobs
     = Inr {\<lparr>JobID = Some ''1'', JobName = None, Partition = None, Account = None,
             AllocCPUS = None, State = None, ExitCode = None\<rparr>}"
  by code_simp


section \<open>Several matching quota records\<close>






section \<open>Creating a fileset\<close>

lemma backend_call_answer:
  "respond env tr c = Inr b \<Longrightarrow> backend_call env c tr = (Inr b, tr @ [c])"
  by (simp add: backend_call_def)

lemma fileset_trace_create:
  assumes answers: "\<And>t c. respond env t c = Inr (f t c)"
      and vo: "get_vo (ap env) (vo_id vo) = Inr v"
      and fs: "filesystem st = Some filesystem_name"
      and owner: "\<And>e. first_moderator env vo = Inl e \<Longrightarrow> e = HTTPError \<or> e = IndexError"
  shows "snd (create_fileset env vo st path parent fileset_name group_owner_id tr)
         = (let name = (case fileset_name of None \<Rightarrow> vsc_id v
                         | Some n \<Rightarrow> if n = [] then vsc_id v else n);
                group = (case group_owner_id of None \<Rightarrow> vsc_id_number v
                         | Some g \<Rightarrow> if g = 0 then vsc_id_number v else g);
                uid = (case first_moderator env vo of
                         Inr moderator \<Rightarrow> account_vsc_id_number moderator
                       | Inl _ \<Rightarrow> nobody_uid (cfg env))
            in tr @ [ListFilesets, GetFilesetInfo filesystem_name name]
                 @ (if f (tr @ [ListFilesets]) (GetFilesetInfo filesystem_name name) then []
                    else [MakeDir (dirname path), MakeFileset path name parent])
                 @ [Chmod 504 path, Chown uid group path])"
proof (cases "first_moderator env vo")
  case (Inl e)
  with owner have "e = HTTPError \<or> e = IndexError" by blast
  with Inl show ?thesis
    using vo fs
    by (auto simp: create_fileset_def the_vo_def bind_def seq_def ret_def backend_call_def
          answers Let_def split: option.splits)
next
  case (Inr a)
  then show ?thesis
    using vo fs
    by (auto simp: create_fileset_def the_vo_def bind_def seq_def ret_def backend_call_def
          answers Let_def split: option.splits)
qed

lemma fileset_trace_muk:
  assumes answers: "\<And>t c. respond env t c = Inr (f t c)"
      and pp: "muk_scratch_path p ''gpfs'' = ret path"
  shows "snd (muk_create_scratch_fileset env p tr)
         = tr @ [ListFilesets, GetFilesetInfo (muk_scratch_name p) (project_id p)]
              @ (if f (tr @ [ListFilesets]) (GetFilesetInfo (muk_scratch_name p) (project_id p))
                 then [] else [MakeDir (dirname path), MakeFileset path (project_id p) None])
              @ [Chmod 504 path,
                 Chown (case submitter_vsc_id_number p of Some uid \<Rightarrow> uid
                        | None \<Rightarrow> nobody_uid (cfg env))
                   (project_group_vsc_id_number p) path,
                 SetFilesetQuota (project_scratch_quota p) path (project_id p) None]"
  using pp
  by (auto simp: muk_create_scratch_fileset_def bind_def seq_def ret_def backend_call_def
        answers split: option.splits)

text \<open>Rules for \<open>yields\<close>, one for each way a computation is built.\<close>

lemma yields_ret: "Q x \<Longrightarrow> yields Q P (ret x)"
  by (simp add: yields_def ret_def)

lemma yields_raise: "yields Q P (raise e)"
  by (simp add: yields_def raise_def)

lemma yields_lift: "(\<And>x. r = Inr x \<Longrightarrow> Q x) \<Longrightarrow> yields Q P (lift r)"
  by (simp add: yields_def lift_def)

lemma yields_backend_call:
  "P c \<Longrightarrow> (\<And>t b. respond env t c = Inr b \<Longrightarrow> Q b) \<Longrightarrow> yields Q P (backend_call env c)"
  by (simp add: yields_def backend_call_def)

lemma yields_bind:
  assumes m: "yields Q P m" and f: "\<And>x. Q x \<Longrightarrow> yields R P (f x)"
  shows "yields R P (bind m f)"
  unfolding yields_def
proof
  fix tr
  from m obtain new where n: "snd (m tr) = tr @ new" "list_all P new"
      "\<forall>x. fst (m tr) = Inr x \<longrightarrow> Q x"
    unfolding yields_def by blast
  show "\<exists>new. snd (bind m f tr) = tr @ new \<and> list_all P new
          \<and> (\<forall>x. fst (bind m f tr) = Inr x \<longrightarrow> R x)"
  proof (cases "fst (m tr)")
    case (Inl e)
    then have "bind m f tr = (Inl e, tr @ new)"
      using n(1) by (cases "m tr") (simp add: bind_def)
    with n(2) show ?thesis by auto
  next
    case (Inr x)
    then have b: "bind m f tr = f x (tr @ new)"
      using n(1) by (cases "m tr") (simp add: bind_def)
    from Inr n(3) have "Q x" by blast
    from f[OF this] obtain new' where
      n': "snd (f x (tr @ new)) = (tr @ new) @ new'" "list_all P new'"
        "\<forall>y. fst (f x (tr @ new)) = Inr y \<longrightarrow> R y"
      unfolding yields_def by blast
    with b n(2) show ?thesis
      by (intro exI[of _ "new @ new'"]) simp
  qed
qed

lemma yields_seq: "yields Q P m \<Longrightarrow> yields R P n \<Longrightarrow> yields R P (seq m n)"
  unfolding seq_def by (rule yields_bind)

lemma yields_weaken: "yields Q P m \<Longrightarrow> (\<And>x. Q x \<Longrightarrow> Q' x) \<Longrightarrow> yields Q' P m"
  unfolding yields_def by blast

lemma yields_list_filesets:
  "P ListFilesets \<Longrightarrow>
   yields (\<lambda>_. True) P
     (\<lambda>tr. case backend_call env ListFilesets tr of
              (Inl AttributeError, tr') \<Rightarrow> (Inr (), tr')
            | (Inl e, tr') \<Rightarrow> (Inl e, tr')
            | (Inr _, tr') \<Rightarrow> (Inr (), tr'))"
  by (auto simp: yields_def backend_call_def split: sum.splits error.splits)

lemma create_fileset_no_creation:
  assumes present: "\<And>t fsn name. respond env t (GetFilesetInfo fsn name) \<noteq> Inr False"
  shows "yields (\<lambda>_. True) (\<lambda>c. \<not> is_creation c)
           (create_fileset env vo st path parent fileset_name group_owner_id)"
  unfolding create_fileset_def
  apply (rule yields_bind[where Q = "\<lambda>_. True"])
   apply (rule yields_list_filesets, simp add: is_creation_def)
  apply (rule yields_bind[where Q = "\<lambda>_. True"])
   apply (auto simp: the_vo_def intro!: yields_bind[where Q = "\<lambda>_. True"] yields_ret yields_lift split: option.splits)[1]
  apply (rule yields_bind[where Q = "\<lambda>_. True"])
   apply (auto simp: the_vo_def intro!: yields_bind[where Q = "\<lambda>_. True"] yields_ret yields_lift split: option.splits)[1]
  apply (rule yields_bind[where Q = "\<lambda>info. info"])
   apply (auto simp: is_creation_def intro!: yields_raise yields_backend_call split: option.splits)[1]
  using present apply (metis (full_types))
  apply (rule yields_bind[where Q = "\<lambda>_. True"])
   apply (auto simp: the_vo_def intro!: yields_bind[where Q = "\<lambda>_. True"] yields_ret yields_lift)[1]
  apply (rule yields_bind[where Q = "\<lambda>_. True"])
   apply (auto simp: is_creation_def intro!: yields_backend_call)[1]
  apply (auto simp: is_creation_def intro!: yields_seq[where Q = "\<lambda>_. True"] yields_backend_call yields_ret yields_raise
           split: sum.splits error.splits)
  done

lemma muk_create_scratch_fileset_no_creation:
  assumes present: "\<And>t fsn name. respond env t (GetFilesetInfo fsn name) \<noteq> Inr False"
  shows "yields (\<lambda>_. True) (\<lambda>c. \<not> is_creation c) (muk_create_scratch_fileset env p)"
  unfolding muk_create_scratch_fileset_def
  apply (rule yields_bind[where Q = "\<lambda>_. True"])
   apply (auto simp: is_creation_def intro!: yields_backend_call)[1]
  apply (rule yields_bind[where Q = "\<lambda>_. True"])
   apply (auto simp: muk_scratch_path_def intro!: yields_bind[where Q = "\<lambda>_. True"] yields_ret yields_raise split: option.splits)[1]
  apply (rule yields_bind[where Q = "\<lambda>info. info"])
   apply (auto simp: is_creation_def intro!: yields_backend_call)[1]
  using present apply (metis (full_types))
  apply (rule yields_bind[where Q = "\<lambda>_. True"])
   apply (auto intro!: yields_ret)[1]
  apply (auto simp: is_creation_def intro!: yields_bind[where Q = "\<lambda>_. True"] yields_backend_call yields_ret
           split: option.splits)
  done

lemma yields_new_calls:
  "yields Q P m \<Longrightarrow> list_all P (drop (length tr) (snd (m tr)))"
  unfolding yields_def
proof -
  assume "\<forall>tr. \<exists>new. snd (m tr) = tr @ new \<and> list_all P new \<and> (\<forall>x. fst (m tr) = Inr x \<longrightarrow> Q x)"
  then obtain new where "snd (m tr) = tr @ new" "list_all P new" by blast
  then show ?thesis by simp
qed

text \<open>Claim C6. In \<^verbatim>\<open>_create_fileset\<close> and in \<^verbatim>\<open>MukProject.create_scratch_fileset\<close>:
  (1) for any backend, also one that raises, if \<^verbatim>\<open>get_fileset_info\<close> never reports a
  fileset absent, the calls issued contain no \<^verbatim>\<open>make_dir\<close> and no \<^verbatim>\<open>make_fileset\<close>;
  (2) when no backend call raises, the VO and the project path resolve, the storage has
  its \<^verbatim>\<open>filesystem\<close> attribute, and the moderator lookup returns or raises one of the two
  exceptions the source handles, the calls issued are exactly \<^verbatim>\<open>list_filesets\<close>,
  \<^verbatim>\<open>get_fileset_info\<close>, then \<^verbatim>\<open>make_dir\<close> and \<^verbatim>\<open>make_fileset\<close> if and only if the answer
  was that the fileset is absent, then \<^verbatim>\<open>chmod\<close> and \<^verbatim>\<open>chown\<close> in both cases (followed by
  \<^verbatim>\<open>set_fileset_quota\<close> for a project). So a second run on a backend where the fileset
  exists issues no creation call.\<close>

theorem fileset_created_only_when_absent:
  "((\<forall>t fsn name. respond env t (GetFilesetInfo fsn name) \<noteq> Inr False) \<longrightarrow>
       list_all (\<lambda>c. \<not> is_creation c)
         (drop (length tr)
            (snd (create_fileset env vo st path parent fileset_name group_owner_id tr)))
     \<and> list_all (\<lambda>c. \<not> is_creation c)
         (drop (length tr) (snd (muk_create_scratch_fileset env p tr))))
   \<and> ((\<forall>t c. respond env t c = Inr (answer t c))
       \<and> get_vo (ap env) (vo_id vo) = Inr v
       \<and> filesystem st = Some filesystem_name
       \<and> (\<forall>e. first_moderator env vo = Inl e \<longrightarrow> e = HTTPError \<or> e = IndexError)
       \<and> muk_scratch_path p ''gpfs'' = ret project_path \<longrightarrow>
       snd (create_fileset env vo st path parent fileset_name group_owner_id tr)
         = (let name = (case fileset_name of None \<Rightarrow> vsc_id v
                         | Some n \<Rightarrow> if n = [] then vsc_id v else n);
                group = (case group_owner_id of None \<Rightarrow> vsc_id_number v
                         | Some g \<Rightarrow> if g = 0 then vsc_id_number v else g);
                uid = (case first_moderator env vo of
                         Inr moderator \<Rightarrow> account_vsc_id_number moderator
                       | Inl _ \<Rightarrow> nobody_uid (cfg env))
            in tr @ [ListFilesets, GetFilesetInfo filesystem_name name]
                 @ (if answer (tr @ [ListFilesets]) (GetFilesetInfo filesystem_name name) then []
                    else [MakeDir (dirname path), MakeFileset path name parent])
                 @ [Chmod 504 path, Chown uid group path])
     \<and> snd (muk_create_scratch_fileset env p tr)
         = tr @ [ListFilesets, GetFilesetInfo (muk_scratch_name p) (project_id p)]
              @ (if answer (tr @ [ListFilesets])
                      (GetFilesetInfo (muk_scratch_name p) (project_id p))
                 then []
                 else [MakeDir (dirname project_path),
                       MakeFileset project_path (project_id p) None])
              @ [Chmod 504 project_path,
                 Chown (case submitter_vsc_id_number p of Some uid \<Rightarrow> uid
                        | None \<Rightarrow> nobody_uid (cfg env))
                   (project_group_vsc_id_number p) project_path,
                 SetFilesetQuota (project_scratch_quota p) project_path (project_id p) None])"
proof (intro conjI impI)
  assume a: "\<forall>t fsn name. respond env t (GetFilesetInfo fsn name) \<noteq> Inr False"
  then have present: "\<And>t fsn name. respond env t (GetFilesetInfo fsn name) \<noteq> Inr False"
    by blast
  show "list_all (\<lambda>c. \<not> is_creation c)
         (drop (length tr)
            (snd (create_fileset env vo st path parent fileset_name group_owner_id tr)))"
    by (rule yields_new_calls[OF create_fileset_no_creation[OF present]])
  show "list_all (\<lambda>c. \<not> is_creation c)
         (drop (length tr) (snd (muk_create_scratch_fileset env p tr)))"
    by (rule yields_new_calls[OF muk_create_scratch_fileset_no_creation[OF present]])
next
  assume h: "(\<forall>t c. respond env t c = Inr (answer t c))
       \<and> get_vo (ap env) (vo_id vo) = Inr v
       \<and> filesystem st = Some filesystem_name
       \<and> (\<forall>e. first_moderator env vo = Inl e \<longrightarrow> e = HTTPError \<or> e = IndexError)
       \<and> muk_scratch_path p ''gpfs'' = ret project_path"
  then have answers: "\<And>t c. respond env t c = Inr (answer t c)"
    and vo: "get_vo (ap env) (vo_id vo) = Inr v"
    and fs: "filesystem st = Some filesystem_name"
    and owner: "\<And>e. first_moderator env vo = Inl e \<Longrightarrow> e = HTTPError \<or> e = IndexError"
    and pp: "muk_scratch_path p ''gpfs'' = ret project_path"
    by blast+
  show "snd (create_fileset env vo st path parent fileset_name group_owner_id tr)
         = (let name = (case fileset_name of None \<Rightarrow> vsc_id v
                         | Some n \<Rightarrow> if n = [] then vsc_id v else n);
                group = (case group_owner_id of None \<Rightarrow> vsc_id_number v
                         | Some g \<Rightarrow> if g = 0 then vsc_id_number v else g);
                uid = (case first_moderator env vo of
                         Inr moderator \<Rightarrow> account_vsc_id_number moderator
                       | Inl _ \<Rightarrow> nobody_uid (cfg env))
            in tr @ [ListFilesets, GetFilesetInfo filesystem_name name]
                 @ (if answer (tr @ [ListFilesets]) (GetFilesetInfo filesystem_name name) then []
                    else [MakeDir (dirname path), MakeFileset path name parent])
                 @ [Chmod 504 path, Chown uid group path])"
    by (rule fileset_trace_create[OF answers vo fs owner])
  show "snd (muk_create_scratch_fileset env p tr)
         = tr @ [ListFilesets, GetFilesetInfo (muk_scratch_name p) (project_id p)]
              @ (if answer (tr @ [ListFilesets])
                      (GetFilesetInfo (muk_scratch_name p) (project_id p))
                 then []
                 else [MakeDir (dirname project_path),
                       MakeFileset project_path (project_id p) None])
              @ [Chmod 504 project_path,
                 Chown (case submitter_vsc_id_number p of Some uid \<Rightarrow> uid
                        | None \<Rightarrow> nobody_uid (cfg env))
                   (project_group_vsc_id_number p) project_path,
                 SetFilesetQuota (project_scratch_quota p) project_path (project_id p) None]"
    by (rule fileset_trace_muk[OF answers pp])
qed

text \<open>With the fileset present, and with the fileset absent.\<close>

theorem fileset_created_only_when_absent_witness:
  "snd (create_fileset (ex_env [] ex_respond_present) (ex_vo_object ''gvo00001'') ex_storage
          ''/kyukon/vo/gvo00001'' None None None [])
     = [ListFilesets, GetFilesetInfo ''kyukondata'' ''gvo00001'',
        Chmod 504 ''/kyukon/vo/gvo00001'', Chown 2540001 2640001 ''/kyukon/vo/gvo00001'']
   \<and> snd (muk_create_scratch_fileset (ex_env [] ex_respond_present) ex_project [])
     = [ListFilesets, GetFilesetInfo ''scratch'' ''project00001'',
        Chmod 504 ''/gpfs/scratch/projects/project00001'',
        Chown 65534 2700001 ''/gpfs/scratch/projects/project00001'',
        SetFilesetQuota 268435456000 ''/gpfs/scratch/projects/project00001'' ''project00001'' None]
   \<and> snd (create_fileset (ex_env [] ex_respond_absent) (ex_vo_object ''gvo00001'') ex_storage
          ''/kyukon/vo/gvo00001'' None None None [])
     = [ListFilesets, GetFilesetInfo ''kyukondata'' ''gvo00001'',
        MakeDir ''/kyukon/vo'', MakeFileset ''/kyukon/vo/gvo00001'' ''gvo00001'' None,
        Chmod 504 ''/kyukon/vo/gvo00001'', Chown 2540001 2640001 ''/kyukon/vo/gvo00001'']"
proof -
  let ?env = "ex_env [] ex_respond_present" and ?vo = "ex_vo_object ''gvo00001''"
  have h1: "\<forall>t c. respond ?env t c = Inr ((\<lambda>t c. True) t c)"
    by (simp add: ex_env_def ex_respond_present_def)
  have h2: "get_vo (ap ?env) (vo_id ?vo) = Inr (ex_vo ''gvo00001'')"
    by (simp add: ex_env_def ex_ap_def ex_vo_object_def)
  have h3: "filesystem ex_storage = Some ''kyukondata''"
    by (simp add: ex_storage_def)
  have fm: "first_moderator ?env ?vo = Inr \<lparr> account_vsc_id = ''vsc40001'', account_vsc_id_number = 2540001 \<rparr>"
    by (simp add: first_moderator_def ex_env_def ex_ap_def ex_vo_object_def ex_vo_def)
  then have h4: "\<forall>e. first_moderator ?env ?vo = Inl e \<longrightarrow> e = HTTPError \<or> e = IndexError"
    by simp
  have pj: "path_join (path_join ''/gpfs/scratch'' ''projects'') ''project00001''
      = ''/gpfs/scratch/projects/project00001''"
    by code_simp
  have h5: "muk_scratch_path ex_project ''gpfs'' = ret ''/gpfs/scratch/projects/project00001''"
    by (simp add: muk_scratch_path_def ex_project_def pj)
  have absent: "snd (create_fileset (ex_env [] ex_respond_absent) ?vo ex_storage
          ''/kyukon/vo/gvo00001'' None None None [])
     = [ListFilesets, GetFilesetInfo ''kyukondata'' ''gvo00001'',
        MakeDir ''/kyukon/vo'', MakeFileset ''/kyukon/vo/gvo00001'' ''gvo00001'' None,
        Chmod 504 ''/kyukon/vo/gvo00001'', Chown 2540001 2640001 ''/kyukon/vo/gvo00001'']"
    by code_simp
  from fileset_created_only_when_absent[where env = ?env and vo = ?vo and st = ex_storage
         and answer = "\<lambda>t c. True" and v = "ex_vo ''gvo00001''"
         and filesystem_name = "''kyukondata''" and p = ex_project
         and project_path = "''/gpfs/scratch/projects/project00001''" and tr = "[]"
         and path = "''/kyukon/vo/gvo00001''" and parent = None and fileset_name = None
         and group_owner_id = None]
       h1 h2 h3 h4 h5
  have "snd (create_fileset ?env ?vo ex_storage ''/kyukon/vo/gvo00001'' None None None [])
         = [ListFilesets, GetFilesetInfo ''kyukondata'' (vsc_id (ex_vo ''gvo00001'')),
            Chmod 504 ''/kyukon/vo/gvo00001'',
            Chown (case first_moderator ?env ?vo of
                         Inr moderator \<Rightarrow> account_vsc_id_number moderator
                       | Inl _ \<Rightarrow> nobody_uid (cfg ?env)) (vsc_id_number (ex_vo ''gvo00001''))
              ''/kyukon/vo/gvo00001'']
       \<and> snd (muk_create_scratch_fileset ?env ex_project [])
         = [ListFilesets, GetFilesetInfo (muk_scratch_name ex_project) (project_id ex_project),
            Chmod 504 ''/gpfs/scratch/projects/project00001'',
            Chown (case submitter_vsc_id_number ex_project of Some uid \<Rightarrow> uid
                        | None \<Rightarrow> nobody_uid (cfg ?env))
                   (project_group_vsc_id_number ex_project) ''/gpfs/scratch/projects/project00001'',
            SetFilesetQuota (project_scratch_quota ex_project) ''/gpfs/scratch/projects/project00001''
              (project_id ex_project) None]"
    by (simp add: Let_def)
  with fm absent show ?thesis
    by (simp add: ex_vo_def ex_project_def ex_env_def ex_cfg_def)
qed


section \<open>The result dictionaries\<close>


lemma keys_md_update:
  "map fst (md_update k v d) = (if k \<in> fst ` set d then map fst d else map fst d @ [k])"
  by (induction d) auto






section \<open>The loop over the members\<close>

lemma ids_with_Nil [simp]: "ids_with b [] outs = []"
  by (simp add: ids_with_def)

lemma ids_with_Cons [simp]:
  "ids_with b (m # ms) (out # outs) =
     (if out = b then account_vsc_id (member_account m) # ids_with b ms outs else ids_with b ms outs)"
  by (simp add: ids_with_def)

lemma length_member_outcomes [simp]:
  "length (member_outcomes env vo sn ms tr) = length ms"
  by (induction ms arbitrary: tr) (auto split: prod.splits sum.splits)


section \<open>One VO\<close>





section \<open>The loop over the VOs\<close>




section \<open>Failure of one member\<close>







section \<open>Failure of a VO\<close>

text \<open>Claim C2, which the code does not meet. On the backend that cannot create filesets the
  VO-level steps of \<open>gvo00001\<close> raise. The failed map then holds, under the VO's id, the
  bound method \<^verbatim>\<open>vo.members\<close> and not the VO's member list. When the id occurs a second time
  in the changeset, the second assignment has to combine the stored method with a list,
  \<^verbatim>\<open>TypeError\<close> escapes \<^verbatim>\<open>process_vos\<close>, and the VO after it is never processed.\<close>

theorem vo_failure_records_bound_method:
  "process_vos (ex_env [''vsc40001'', ''vsc40002''] ex_respond_broken) False
      [''gvo00001''] ''VSC_DATA'' ''202411040000'' ''gent'' []
     = (Inr ([], [(''gvo00001'', BoundMethod_members ''gvo00001'')]),
        [ListFilesets, GetFilesetInfo ''kyukondata'' ''gvo00001'', MakeDir ''/kyukon/vo'',
         MakeFileset ''/kyukon/vo/gvo00001'' ''gvo00001'' None])
   \<and> members (ex_vo ''gvo00001'') = [''vsc40001'', ''vsc40002'', ''vsc40003'']
   \<and> process_vos (ex_env [''vsc40001'', ''vsc40002''] ex_respond_broken) False
      [''gvo00001'', ''gvo00001'', ''gvo00003''] ''VSC_DATA'' ''202411040000'' ''gent'' []
     = (Inl TypeError,
        [ListFilesets, GetFilesetInfo ''kyukondata'' ''gvo00001'', MakeDir ''/kyukon/vo'',
         MakeFileset ''/kyukon/vo/gvo00001'' ''gvo00001'' None,
         ListFilesets, GetFilesetInfo ''kyukondata'' ''gvo00001'', MakeDir ''/kyukon/vo'',
         MakeFileset ''/kyukon/vo/gvo00001'' ''gvo00001'' None])"
  by code_simp

section \<open>The order of processing\<close>

lemma appends_key_refl [simp]: "appends_key k d d"
  by (simp add: appends_key_def)

lemma appends_key_md_update [simp]: "appends_key k d (md_update k w d)"
  by (simp add: appends_key_def keys_md_update)
















end
